theory Spec2Isabelle
  imports Main "HOL-Library.Char_ord" "HOL-Library.List_Lexorder"
begin

section \<open>Characters and Python string primitives\<close>

text \<open>
  A text is a list of characters, one \<^typ>\<open>char\<close> per code point; the model covers the
  code points below 256.  The classifications below are the ones Python's \<open>str\<close> methods and
  the \<open>re\<close> module use on that range.
\<close>

definition digits :: string where
  "digits = ''0123456789''"

definition a_z :: string where
  "a_z = ''abcdefghijklmnopqrstuvwxyz''"

definition A_Z :: string where
  "A_Z = ''ABCDEFGHIJKLMNOPQRSTUVWXYZ''"

definition latin1_upper :: string where
  \<comment> \<open>the upper-case letters from U+00C0 to U+00DE\<close>
  "latin1_upper = [CHR 0xC0, CHR 0xC1, CHR 0xC2, CHR 0xC3, CHR 0xC4, CHR 0xC5, CHR 0xC6, CHR 0xC7, CHR 0xC8, CHR 0xC9, CHR 0xCA, CHR 0xCB, CHR 0xCC, CHR 0xCD, CHR 0xCE, CHR 0xCF, CHR 0xD0, CHR 0xD1, CHR 0xD2, CHR 0xD3, CHR 0xD4, CHR 0xD5, CHR 0xD6, CHR 0xD8, CHR 0xD9, CHR 0xDA, CHR 0xDB, CHR 0xDC, CHR 0xDD, CHR 0xDE]"

definition latin1_lower :: string where
  \<comment> \<open>their lower-case forms, from U+00E0 to U+00FE\<close>
  "latin1_lower = [CHR 0xE0, CHR 0xE1, CHR 0xE2, CHR 0xE3, CHR 0xE4, CHR 0xE5, CHR 0xE6, CHR 0xE7, CHR 0xE8, CHR 0xE9, CHR 0xEA, CHR 0xEB, CHR 0xEC, CHR 0xED, CHR 0xEE, CHR 0xEF, CHR 0xF0, CHR 0xF1, CHR 0xF2, CHR 0xF3, CHR 0xF4, CHR 0xF5, CHR 0xF6, CHR 0xF8, CHR 0xF9, CHR 0xFA, CHR 0xFB, CHR 0xFC, CHR 0xFD, CHR 0xFE]"

definition latin1_word :: string where
  \<comment> \<open>the alphanumeric code points from U+0080 to U+00FF\<close>
  "latin1_word = [CHR 0xAA, CHR 0xB2, CHR 0xB3, CHR 0xB5, CHR 0xB9, CHR 0xBA, CHR 0xBC, CHR 0xBD, CHR 0xBE, CHR 0xC0, CHR 0xC1, CHR 0xC2, CHR 0xC3, CHR 0xC4, CHR 0xC5, CHR 0xC6, CHR 0xC7, CHR 0xC8, CHR 0xC9, CHR 0xCA, CHR 0xCB, CHR 0xCC, CHR 0xCD, CHR 0xCE, CHR 0xCF, CHR 0xD0, CHR 0xD1, CHR 0xD2, CHR 0xD3, CHR 0xD4, CHR 0xD5, CHR 0xD6, CHR 0xD8, CHR 0xD9, CHR 0xDA, CHR 0xDB, CHR 0xDC, CHR 0xDD, CHR 0xDE, CHR 0xDF, CHR 0xE0, CHR 0xE1, CHR 0xE2, CHR 0xE3, CHR 0xE4, CHR 0xE5, CHR 0xE6, CHR 0xE7, CHR 0xE8, CHR 0xE9, CHR 0xEA, CHR 0xEB, CHR 0xEC, CHR 0xED, CHR 0xEE, CHR 0xEF, CHR 0xF0, CHR 0xF1, CHR 0xF2, CHR 0xF3, CHR 0xF4, CHR 0xF5, CHR 0xF6, CHR 0xF8, CHR 0xF9, CHR 0xFA, CHR 0xFB, CHR 0xFC, CHR 0xFD, CHR 0xFE, CHR 0xFF]"

definition whitespace :: string where
  "whitespace = [CHR 0x09, CHR 0x0A, CHR 0x0B, CHR 0x0C, CHR 0x0D, CHR 0x1C, CHR 0x1D, CHR 0x1E, CHR 0x1F, CHR 0x20, CHR 0x85, CHR 0xA0]"

text \<open>
  The classifications are written on the eight bits of a character (\<open>b0\<close> the lowest), which
  is how they evaluate fastest; the tables above say what they compute.
\<close>

fun is_digit :: "char \<Rightarrow> bool" where
  \<comment> \<open>\<open>\d\<close>: U+0030 to U+0039\<close>
  "is_digit (Char b0 b1 b2 b3 b4 b5 b6 b7) =
     (\<not> b7 \<and> \<not> b6 \<and> b5 \<and> b4 \<and> \<not> (b3 \<and> (b2 \<or> b1)))"

fun is_space :: "char \<Rightarrow> bool" where
  \<comment> \<open>\<open>\s\<close>, \<open>str.isspace\<close>: U+0009 to U+000D, U+001C to U+0020, U+0085, U+00A0\<close>
  "is_space (Char b0 b1 b2 b3 b4 b5 b6 b7) =
     (if b7 then \<not> b6 \<and> \<not> b4 \<and> \<not> b3 \<and> \<not> b1 \<and> (if b5 then \<not> b2 \<and> \<not> b0 else b2 \<and> b0)
      else \<not> b6 \<and> (if b5 then \<not> b4 \<and> \<not> b3 \<and> \<not> b2 \<and> \<not> b1 \<and> \<not> b0
                    else if b4 then b3 \<and> b2
                    else b3 \<and> (if b2 then \<not> b1 else b1 \<or> b0)))"

fun is_ascii_letter :: "char \<Rightarrow> bool" where
  \<comment> \<open>U+0041 to U+005A and U+0061 to U+007A\<close>
  "is_ascii_letter (Char b0 b1 b2 b3 b4 b5 b6 b7) =
     (\<not> b7 \<and> b6 \<and> (b0 \<or> b1 \<or> b2 \<or> b3 \<or> b4) \<and> \<not> (b4 \<and> b3 \<and> (b2 \<or> (b1 \<and> b0))))"

fun is_latin1_word :: "char \<Rightarrow> bool" where
  \<comment> \<open>the alphanumeric code points from U+0080 to U+00FF\<close>
  "is_latin1_word (Char b0 b1 b2 b3 b4 b5 b6 b7) =
     (b7 \<and> (if b6 then \<not> (b4 \<and> \<not> b3 \<and> b2 \<and> b1 \<and> b0)
            else b5 \<and> (if b4 then (if b3 then (b2 \<and> \<not> (b1 \<and> b0)) \<or> (\<not> b2 \<and> (b1 \<noteq> b0))
                                   else (\<not> b2 \<and> b1) \<or> (b2 \<and> \<not> b1 \<and> b0))
                        else b3 \<and> \<not> b2 \<and> b1 \<and> \<not> b0)))"

definition is_word :: "char \<Rightarrow> bool" where
  \<comment> \<open>\<open>\w\<close>: alphanumeric or underscore\<close>
  "is_word c = (if is_ascii_letter c then True else if is_digit c then True
                else if c = CHR ''_'' then True else is_latin1_word c)"

fun lower_char :: "char \<Rightarrow> char" where
  \<comment> \<open>U+0041 to U+005A and U+00C0 to U+00DE (without U+00D7) move up by 32\<close>
  "lower_char (Char b0 b1 b2 b3 b4 b5 b6 b7) =
     (if b6 \<and> \<not> b5 \<and> (if b7 then \<not> (b4 \<and> b2 \<and> b1 \<and> b0)
           else (b0 \<or> b1 \<or> b2 \<or> b3 \<or> b4) \<and> \<not> (b4 \<and> b3 \<and> (b2 \<or> (b1 \<and> b0))))
      then Char b0 b1 b2 b3 b4 True b6 b7 else Char b0 b1 b2 b3 b4 b5 b6 b7)"

fun upper_ascii :: "char \<Rightarrow> char" where
  \<comment> \<open>U+0061 to U+007A move down by 32\<close>
  "upper_ascii (Char b0 b1 b2 b3 b4 b5 b6 b7) =
     (if \<not> b7 \<and> b6 \<and> b5 \<and> (b0 \<or> b1 \<or> b2 \<or> b3 \<or> b4) \<and> \<not> (b4 \<and> b3 \<and> (b2 \<or> (b1 \<and> b0)))
      then Char b0 b1 b2 b3 b4 False b6 b7 else Char b0 b1 b2 b3 b4 b5 b6 b7)"

definition lower :: "string \<Rightarrow> string" where
  \<comment> \<open>\<open>str.lower\<close>\<close>
  "lower s = map lower_char s"

definition is_pydigit :: "char \<Rightarrow> bool" where
  \<comment> \<open>\<open>str.isdigit\<close> on one character: the decimal digits and the superscripts 1, 2, 3\<close>
  "is_pydigit c = (if is_digit c then True else c \<in> set [CHR 0xB2, CHR 0xB3, CHR 0xB9])"

subsection \<open>String methods\<close>

definition strip :: "string \<Rightarrow> string" where
  \<comment> \<open>\<open>s.strip()\<close>\<close>
  "strip s = rev (dropWhile is_space (rev (dropWhile is_space s)))"

definition strip_chars :: "string \<Rightarrow> string \<Rightarrow> string" where
  \<comment> \<open>\<open>s.strip(chars)\<close>\<close>
  "strip_chars chars s =
     rev (dropWhile (\<lambda>c. c \<in> set chars) (rev (dropWhile (\<lambda>c. c \<in> set chars) s)))"

fun startswith :: "string \<Rightarrow> string \<Rightarrow> bool" where
  \<comment> \<open>\<open>s.startswith(p)\<close>, the text first\<close>
  "startswith s [] = True"
| "startswith [] (p # ps) = False"
| "startswith (c # cs) (p # ps) = (if c = p then startswith cs ps else False)"

fun contains :: "string \<Rightarrow> string \<Rightarrow> bool" where
  \<comment> \<open>\<open>sub in s\<close>, the text first\<close>
  "contains [] sub = (sub = [])"
| "contains (c # cs) sub = (if startswith (c # cs) sub then True else contains cs sub)"

fun split_on :: "char \<Rightarrow> string \<Rightarrow> string list" where
  \<comment> \<open>\<open>s.split(c)\<close> for a one-character separator\<close>
  "split_on c [] = [[]]"
| "split_on c (x # xs) =
     (if x = c then [] # split_on c xs
      else case split_on c xs of w # ws \<Rightarrow> (x # w) # ws | [] \<Rightarrow> [[x]])"

definition split_first :: "char \<Rightarrow> string \<Rightarrow> string \<times> string" where
  \<comment> \<open>\<open>s.split(c, 1)\<close> when \<open>c\<close> occurs in \<open>s\<close>: the text before and after its first occurrence\<close>
  "split_first c s = (takeWhile (\<lambda>x. x \<noteq> c) s, drop 1 (dropWhile (\<lambda>x. x \<noteq> c) s))"

fun split_ws_from :: "string \<Rightarrow> string \<Rightarrow> string list" where
  "split_ws_from w [] = (if w = [] then [] else [rev w])"
| "split_ws_from w (c # cs) =
     (if is_space c then (if w = [] then split_ws_from [] cs else rev w # split_ws_from [] cs)
      else split_ws_from (c # w) cs)"

definition split_ws :: "string \<Rightarrow> string list" where
  \<comment> \<open>\<open>s.split()\<close>: the words between runs of whitespace\<close>
  "split_ws s = split_ws_from [] s"

fun join :: "string \<Rightarrow> string list \<Rightarrow> string" where
  \<comment> \<open>\<open>sep.join(parts)\<close>\<close>
  "join sep [] = []"
| "join sep [x] = x"
| "join sep (x # xs) = x @ sep @ join sep xs"

definition replace_char :: "char \<Rightarrow> char \<Rightarrow> string \<Rightarrow> string" where
  \<comment> \<open>\<open>s.replace(a, b)\<close> for single characters\<close>
  "replace_char a b s = map (\<lambda>c. if c = a then b else c) s"

definition digit_val :: "char \<Rightarrow> int" where
  \<comment> \<open>the place of a decimal digit in \<open>0123456789\<close>\<close>
  "digit_val c = int (length (takeWhile (\<lambda>d. d \<noteq> c) digits))"

definition int_of_digits :: "string \<Rightarrow> int" where
  \<comment> \<open>\<open>int(s)\<close> for a text of decimal digits\<close>
  "int_of_digits s = foldl (\<lambda>n c. 10 * n + digit_val c) 0 s"

fun str_nat :: "nat \<Rightarrow> string" where
  \<comment> \<open>\<open>str(n)\<close> for a natural number\<close>
  "str_nat n = (if n < 10 then [digits ! n] else str_nat (n div 10) @ [digits ! (n mod 10)])"

subsection \<open>Values, dictionaries and exceptions\<close>

text \<open>
  A float is carried as the text it was read from; a dictionary is the list of its items in
  insertion order, with one item per key.
\<close>

datatype pyval =
    PNone
  | PBool bool
  | PInt int
  | PFloat string
  | PStr string
  | PList "pyval list"
  | PDict "(string \<times> pyval) list"

type_synonym pydict = "(string \<times> pyval) list"

fun dict_set :: "string \<Rightarrow> pyval \<Rightarrow> pydict \<Rightarrow> pydict" where
  \<comment> \<open>\<open>d[k] = v\<close>\<close>
  "dict_set k v [] = [(k, v)]"
| "dict_set k v ((k', v') # d) = (if k' = k then (k, v) # d else (k', v') # dict_set k v d)"

definition dict_get :: "pydict \<Rightarrow> string \<Rightarrow> pyval option" where
  "dict_get d k = map_of d k"

definition dict_update :: "pydict \<Rightarrow> pydict \<Rightarrow> pydict" where
  \<comment> \<open>\<open>d.update(m)\<close>\<close>
  "dict_update d m = foldl (\<lambda>d kv. dict_set (fst kv) (snd kv) d) d m"

definition dict_of_pairs :: "pydict \<Rightarrow> pydict" where
  \<comment> \<open>\<open>dict(pairs)\<close>\<close>
  "dict_of_pairs pairs = dict_update [] pairs"

datatype exn =
    JSONDecodeError string
  | TypeError string
  | ValueError string
  | YAMLError string
  | OtherException string

fun str_exn :: "exn \<Rightarrow> string" where
  \<comment> \<open>\<open>str(e)\<close>\<close>
  "str_exn (JSONDecodeError m) = m"
| "str_exn (TypeError m) = m"
| "str_exn (ValueError m) = m"
| "str_exn (YAMLError m) = m"
| "str_exn (OtherException m) = m"

section \<open>The JSON decoder\<close>

text \<open>
  \<open>json.loads\<close> as the parser uses it: default options, a \<open>str\<close> argument.  The decoder
  works on the text still to be read; an error records how much text was left where it was
  raised, from which \<open>json_loads\<close> computes the position, line and column of the message.
  An escape \<open>\uXXXX\<close> above U+00FF names a character outside the alphabet of this model and
  is reported as \<open>JOutside\<close>.  Every call of \<open>scan_once\<close>, \<open>parse_pairs\<close> and
  \<open>parse_items\<close> uses one unit of fuel; \<open>json_loads\<close> supplies two units for each character.
\<close>

datatype jerr = JErr string nat | JOutside | JFuel

definition json_ws :: "char \<Rightarrow> bool" where
  "json_ws c = (if c = CHR '' '' then True else if c = CHR ''\<newline>'' then True
                else if c = CHR 0x09 then True else c = CHR 0x0D)"

definition skip_ws :: "string \<Rightarrow> string" where
  "skip_ws s = dropWhile json_ws s"

fun is_control :: "char \<Rightarrow> bool" where
  \<comment> \<open>U+0000 to U+001F\<close>
  "is_control (Char b0 b1 b2 b3 b4 b5 b6 b7) = (\<not> b7 \<and> \<not> b6 \<and> \<not> b5)"

definition hex_digits :: "(char \<times> bool \<times> bool \<times> bool \<times> bool) list" where
  \<comment> \<open>a hexadecimal digit and its four bits, the lowest first\<close>
  "hex_digits =
    [(CHR ''0'', False, False, False, False), (CHR ''1'', True, False, False, False),
     (CHR ''2'', False, True, False, False), (CHR ''3'', True, True, False, False),
     (CHR ''4'', False, False, True, False), (CHR ''5'', True, False, True, False),
     (CHR ''6'', False, True, True, False), (CHR ''7'', True, True, True, False),
     (CHR ''8'', False, False, False, True), (CHR ''9'', True, False, False, True),
     (CHR ''a'', False, True, False, True), (CHR ''b'', True, True, False, True),
     (CHR ''c'', False, False, True, True), (CHR ''d'', True, False, True, True),
     (CHR ''e'', False, True, True, True), (CHR ''f'', True, True, True, True),
     (CHR ''A'', False, True, False, True), (CHR ''B'', True, True, False, True),
     (CHR ''C'', False, False, True, True), (CHR ''D'', True, False, True, True),
     (CHR ''E'', False, True, True, True), (CHR ''F'', True, True, True, True)]"

definition unicode_escape :: "string \<Rightarrow> jerr + char" where
  \<comment> \<open>the character named by the four digits after \<open>\u\<close>\<close>
  "unicode_escape ds =
     (case map (map_of hex_digits) ds of
        [Some h3, Some h2, Some (b4, b5, b6, b7), Some (b0, b1, b2, b3)] \<Rightarrow>
          if h3 = (False, False, False, False) \<and> h2 = (False, False, False, False)
          then Inr (Char b0 b1 b2 b3 b4 b5 b6 b7) else Inl JOutside
      | _ \<Rightarrow> Inl (JErr (''Invalid '' @ [CHR 0x5C] @ ''uXXXX escape'') (length ds + 1)))"

definition escapes :: "(char \<times> char) list" where
  "escapes = [(CHR 0x22, CHR 0x22), (CHR 0x5C, CHR 0x5C), (CHR ''/'', CHR ''/''),
     (CHR ''b'', CHR 0x08), (CHR ''f'', CHR 0x0C), (CHR ''n'', CHR 0x0A), (CHR ''r'', CHR 0x0D),
     (CHR ''t'', CHR 0x09)]"

fun scanstring :: "nat \<Rightarrow> string \<Rightarrow> string \<Rightarrow> jerr + (string \<times> string)" where
  \<comment> \<open>the text after the opening quote; \<open>begin\<close> is what was left at the opening quote\<close>
  "scanstring begin acc [] = Inl (JErr ''Unterminated string starting at'' begin)"
| "scanstring begin acc (c # cs) =
     (if c = CHR 0x22 then Inr (rev acc, cs)
      else if c = CHR 0x5C then
        (case cs of
           [] \<Rightarrow> Inl (JErr ''Unterminated string starting at'' begin)
         | e # es \<Rightarrow>
             if e = CHR ''u'' then
               (if length es < 4 then Inl (JErr (''Invalid '' @ [CHR 0x5C] @ ''uXXXX escape'') (length cs))
                else case unicode_escape (take 4 es) of
                    Inl (JErr m k) \<Rightarrow> Inl (JErr m (length cs))
                  | Inl err \<Rightarrow> Inl err
                  | Inr x \<Rightarrow> scanstring begin (x # acc) (drop 4 es))
             else (case map_of escapes e of
                 Some x \<Rightarrow> scanstring begin (x # acc) es
               | None \<Rightarrow> Inl (JErr (''Invalid '' @ [CHR 0x5C] @ ''escape'') (Suc (length cs)))))
      else if is_control c then Inl (JErr ''Invalid control character at'' (Suc (length cs)))
      else scanstring begin (c # acc) cs)"

definition match_number :: "string \<Rightarrow> (pyval \<times> string) option" where
  \<comment> \<open>\<open>-?(0|[1-9]\d*)(\.\d+)?([eE][-+]?\d+)?\<close>: an integer, or a float when there is a fraction
      or an exponent\<close>
  "match_number s =
     (let sign = (if startswith s ''-'' then ''-'' else []);
          s1 = drop (length sign) s;
          ipart = (case s1 of [] \<Rightarrow> []
                   | d # ds \<Rightarrow> if d = CHR ''0'' then ''0''
                              else if is_digit d then d # takeWhile is_digit ds else []);
          s2 = drop (length ipart) s1;
          frac = (case s2 of p # d # ds \<Rightarrow>
                     if p = CHR ''.'' \<and> is_digit d then p # d # takeWhile is_digit ds else []
                   | _ \<Rightarrow> []);
          s3 = drop (length frac) s2;
          esign = (case s3 of e # g # _ \<Rightarrow>
                     if (e = CHR ''e'' \<or> e = CHR ''E'') \<and> (g = CHR ''-'' \<or> g = CHR ''+'')
                     then [e, g] else if e = CHR ''e'' \<or> e = CHR ''E'' then [e] else []
                   | _ \<Rightarrow> []);
          edigits = takeWhile is_digit (drop (length esign) s3);
          ex = (if esign = [] \<or> edigits = [] then [] else esign @ edigits);
          s4 = drop (length ex) s3
      in if ipart = [] then None
         else if frac = [] \<and> ex = [] then
           Some (PInt (if sign = [] then int_of_digits ipart else - int_of_digits ipart), s4)
         else Some (PFloat (sign @ ipart @ frac @ ex), s4))"

fun scan_once :: "nat \<Rightarrow> string \<Rightarrow> jerr + (pyval \<times> string)"
  and parse_pairs :: "nat \<Rightarrow> pydict \<Rightarrow> string \<Rightarrow> jerr + (pyval \<times> string)"
  and parse_items :: "nat \<Rightarrow> pyval list \<Rightarrow> string \<Rightarrow> jerr + (pyval \<times> string)" where
  "scan_once 0 s = Inl JFuel"
| "scan_once (Suc n) s =
     (case s of
        [] \<Rightarrow> Inl (JErr ''Expecting value'' 0)
      | c # cs \<Rightarrow>
          if c = CHR 0x22 then
            (case scanstring (length s) [] cs of Inl e \<Rightarrow> Inl e | Inr (str, r) \<Rightarrow> Inr (PStr str, r))
          else if c = CHR ''{'' then
            (let r = skip_ws cs
             in if startswith r ''}'' then Inr (PDict [], drop 1 r) else parse_pairs n [] r)
          else if c = CHR ''['' then
            (let r = skip_ws cs
             in if startswith r '']'' then Inr (PList [], drop 1 r) else parse_items n [] r)
          else if startswith s ''null'' then Inr (PNone, drop 4 s)
          else if startswith s ''true'' then Inr (PBool True, drop 4 s)
          else if startswith s ''false'' then Inr (PBool False, drop 5 s)
          else if startswith s ''NaN'' then Inr (PFloat ''NaN'', drop 3 s)
          else if startswith s ''Infinity'' then Inr (PFloat ''Infinity'', drop 8 s)
          else if startswith s ''-Infinity'' then Inr (PFloat ''-Infinity'', drop 9 s)
          else (case match_number s of
                  None \<Rightarrow> Inl (JErr ''Expecting value'' (length s))
                | Some vr \<Rightarrow> Inr vr))"
| "parse_pairs 0 pairs s = Inl JFuel"
| "parse_pairs (Suc n) pairs s =
     (if \<not> startswith s [CHR 0x22] then
        Inl (JErr ''Expecting property name enclosed in double quotes'' (length s))
      else case scanstring (length s) [] (drop 1 s) of
          Inl e \<Rightarrow> Inl e
        | Inr (key, r) \<Rightarrow>
            (let r1 = skip_ws r
             in if \<not> startswith r1 '':'' then Inl (JErr (''Expecting '' @ [CHR 0x27] @ '':'' @ [CHR 0x27] @ '' delimiter'') (length r1))
                else case scan_once n (skip_ws (drop 1 r1)) of
                    Inl e \<Rightarrow> Inl e
                  | Inr (v, r2) \<Rightarrow>
                      (let pairs' = pairs @ [(key, v)]; r3 = skip_ws r2
                       in if startswith r3 ''}'' then Inr (PDict (dict_of_pairs pairs'), drop 1 r3)
                          else if \<not> startswith r3 '','' then
                            Inl (JErr (''Expecting '' @ [CHR 0x27] @ '','' @ [CHR 0x27] @ '' delimiter'') (length r3))
                          else parse_pairs n pairs' (skip_ws (drop 1 r3)))))"
| "parse_items 0 items s = Inl JFuel"
| "parse_items (Suc n) items s =
     (case scan_once n s of
        Inl e \<Rightarrow> Inl e
      | Inr (v, r) \<Rightarrow>
          (let items' = items @ [v]; r1 = skip_ws r
           in if startswith r1 '']'' then Inr (PList items', drop 1 r1)
              else if \<not> startswith r1 '','' then Inl (JErr (''Expecting '' @ [CHR 0x27] @ '','' @ [CHR 0x27] @ '' delimiter'') (length r1))
              else parse_items n items' (skip_ws (drop 1 r1))))"

definition count_char :: "char \<Rightarrow> string \<Rightarrow> nat" where
  "count_char c s = length (filter (\<lambda>x. x = c) s)"

definition errmsg :: "string \<Rightarrow> string \<Rightarrow> nat \<Rightarrow> string" where
  \<comment> \<open>the text of a \<open>JSONDecodeError\<close> raised at position \<open>pos\<close> of \<open>doc\<close>\<close>
  "errmsg msg doc pos =
     (let seen = take pos doc;
          lineno = count_char CHR ''\<newline>'' seen + 1;
          colno = length (takeWhile (\<lambda>c. c \<noteq> CHR ''\<newline>'') (rev seen)) + 1
      in msg @ '': line '' @ str_nat lineno @ '' column '' @ str_nat colno
           @ '' (char '' @ str_nat pos @ '')'')"

definition json_loads :: "string \<Rightarrow> exn + pyval" where
  "json_loads doc =
     (case scan_once (2 * length doc + 2) (skip_ws doc) of
        Inl (JErr msg left) \<Rightarrow> Inl (JSONDecodeError (errmsg msg doc (length doc - left)))
      | Inl JOutside \<Rightarrow> Inl (OtherException ''character outside the alphabet'')
      | Inl JFuel \<Rightarrow> Inl (OtherException ''RecursionError'')
      | Inr (v, r) \<Rightarrow>
          (let r1 = skip_ws r
           in if r1 = [] then Inr v
              else Inl (JSONDecodeError (errmsg ''Extra data'' doc (length doc - length r1)))))"

section \<open>Regular expressions with Python's backtracking order\<close>

text \<open>
  The patterns of the parser are written in the following syntax tree.  A matcher state is the
  text still to be read and the groups captured so far; \<open>rmatch\<close> lists the states in which a
  match of the pattern can end, in the order in which Python's backtracking engine tries them,
  so that the head of the list is the match Python reports.
\<close>

datatype citem = CChar char | CSet string | CDigit | CWord | CSpace

datatype regex =
    Lit string
  | AnyChar
  | Class "citem list"
  | NClass "citem list"
  | Seq regex regex
  | Alt regex regex
  | Star regex
  | LazyStar regex
  | Opt regex
  | Rep nat nat regex
  | Group nat regex
  | Ahead regex
  | Eos

record flags =
  ignorecase :: bool
  dotall :: bool

definition no_flags :: flags where
  "no_flags = \<lparr>ignorecase = False, dotall = False\<rparr>"

definition DOTALL :: flags where
  "DOTALL = \<lparr>ignorecase = False, dotall = True\<rparr>"

definition IGNORECASE :: flags where
  "IGNORECASE = \<lparr>ignorecase = True, dotall = False\<rparr>"

definition DOTALL_IGNORECASE :: flags where
  "DOTALL_IGNORECASE = \<lparr>ignorecase = True, dotall = True\<rparr>"

type_synonym mstate = "string \<times> (nat \<times> string) list"

fun citem_has :: "citem \<Rightarrow> char \<Rightarrow> bool" where
  "citem_has (CChar d) c = (c = d)"
| "citem_has (CSet s) c = (c \<in> set s)"
| "citem_has CDigit c = is_digit c"
| "citem_has CWord c = is_word c"
| "citem_has CSpace c = is_space c"

definition class_has :: "flags \<Rightarrow> citem list \<Rightarrow> char \<Rightarrow> bool" where
  "class_has f items c =
     (if list_ex (\<lambda>i. citem_has i c) items then True
      else if ignorecase f
        then (list_ex (\<lambda>i. citem_has i (lower_char c)) items
              \<or> list_ex (\<lambda>i. citem_has i (upper_ascii c)) items)
      else False)"

definition char_eq :: "flags \<Rightarrow> char \<Rightarrow> char \<Rightarrow> bool" where
  "char_eq f p c = (if p = c then True else if ignorecase f then lower_char p = lower_char c else False)"

fun lit_match :: "flags \<Rightarrow> string \<Rightarrow> string \<Rightarrow> string option" where
  "lit_match f [] s = Some s"
| "lit_match f (p # ps) [] = None"
| "lit_match f (p # ps) (c # cs) = (if char_eq f p c then lit_match f ps cs else None)"

definition one_char :: "(char \<Rightarrow> bool) \<Rightarrow> mstate \<Rightarrow> mstate list" where
  "one_char P st = (case fst st of [] \<Rightarrow> [] | c # cs \<Rightarrow> if P c then [(cs, snd st)] else [])"

definition consumed :: "mstate \<Rightarrow> mstate \<Rightarrow> string" where
  "consumed st st' = take (length (fst st) - length (fst st')) (fst st)"

definition shorter :: "mstate \<Rightarrow> mstate \<Rightarrow> bool" where
  "shorter st' st = (length (fst st') < length (fst st))"

primrec star_greedy :: "(mstate \<Rightarrow> mstate list) \<Rightarrow> nat \<Rightarrow> mstate \<Rightarrow> mstate list" where
  "star_greedy m 0 st = [st]"
| "star_greedy m (Suc n) st =
     concat (map (\<lambda>st'. if shorter st' st then star_greedy m n st' else []) (m st)) @ [st]"

primrec star_lazy :: "(mstate \<Rightarrow> mstate list) \<Rightarrow> nat \<Rightarrow> mstate \<Rightarrow> mstate list" where
  "star_lazy m 0 st = [st]"
| "star_lazy m (Suc n) st =
     st # concat (map (\<lambda>st'. if shorter st' st then star_lazy m n st' else []) (m st))"

primrec rep_greedy :: "(mstate \<Rightarrow> mstate list) \<Rightarrow> nat \<Rightarrow> nat \<Rightarrow> mstate \<Rightarrow> mstate list" where
  "rep_greedy m lo 0 st = (if lo = 0 then [st] else [])"
| "rep_greedy m lo (Suc hi) st =
     concat (map (rep_greedy m (lo - 1) hi) (m st)) @ (if lo = 0 then [st] else [])"

definition set_group :: "nat \<Rightarrow> mstate \<Rightarrow> mstate \<Rightarrow> mstate" where
  "set_group n st st' = (fst st', (n, consumed st st') # filter (\<lambda>g. fst g \<noteq> n) (snd st'))"

primrec rmatch :: "flags \<Rightarrow> regex \<Rightarrow> mstate \<Rightarrow> mstate list" where
  "rmatch f (Lit p) = (\<lambda>st. case lit_match f p (fst st) of None \<Rightarrow> [] | Some r \<Rightarrow> [(r, snd st)])"
| "rmatch f AnyChar = one_char (\<lambda>c. dotall f \<or> c \<noteq> CHR ''\<newline>'')"
| "rmatch f (Class cs) = one_char (class_has f cs)"
| "rmatch f (NClass cs) = one_char (\<lambda>c. \<not> class_has f cs c)"
| "rmatch f (Seq a b) = (\<lambda>st. concat (map (rmatch f b) (rmatch f a st)))"
| "rmatch f (Alt a b) = (\<lambda>st. rmatch f a st @ rmatch f b st)"
| "rmatch f (Star a) = (\<lambda>st. star_greedy (rmatch f a) (length (fst st)) st)"
| "rmatch f (LazyStar a) = (\<lambda>st. star_lazy (rmatch f a) (length (fst st)) st)"
| "rmatch f (Opt a) = (\<lambda>st. rmatch f a st @ [st])"
| "rmatch f (Rep lo hi a) = rep_greedy (rmatch f a) lo hi"
| "rmatch f (Group n a) = (\<lambda>st. map (set_group n st) (rmatch f a st))"
| "rmatch f (Ahead a) = (\<lambda>st. if rmatch f a st = [] then [] else [st])"
| "rmatch f Eos = (\<lambda>st. if fst st = [] \<or> fst st = ''\<newline>'' then [st] else [])"

definition Plus :: "regex \<Rightarrow> regex" where
  "Plus a = Seq a (Star a)"

fun seqs :: "regex list \<Rightarrow> regex" where
  "seqs [] = Lit []"
| "seqs [a] = a"
| "seqs (a # as) = Seq a (seqs as)"

text \<open>A match: the matched text and the captured groups.\<close>

type_synonym rmatch_result = "string \<times> (nat \<times> string) list"

definition match_here :: "flags \<Rightarrow> regex \<Rightarrow> string \<Rightarrow> rmatch_result option" where
  "match_here f r s = (case rmatch f r (s, []) of [] \<Rightarrow> None
     | st' # _ \<Rightarrow> Some (consumed (s, []) st', snd st'))"

text \<open>
  Scanning from left to right, as \<open>re.finditer\<close> does: after a match the scan resumes behind it
  (\<open>skip\<close> counts the characters of the match still to be passed over).
\<close>

fun finditer_from :: "flags \<Rightarrow> regex \<Rightarrow> nat \<Rightarrow> string \<Rightarrow> rmatch_result list" where
  "finditer_from f r (Suc k) [] = []"
| "finditer_from f r (Suc k) (c # cs) = finditer_from f r k cs"
| "finditer_from f r 0 [] = (case match_here f r [] of None \<Rightarrow> [] | Some m \<Rightarrow> [m])"
| "finditer_from f r 0 (c # cs) = (case match_here f r (c # cs) of
       None \<Rightarrow> finditer_from f r 0 cs
     | Some m \<Rightarrow> m # finditer_from f r (length (fst m) - 1) cs)"

definition finditer :: "flags \<Rightarrow> regex \<Rightarrow> string \<Rightarrow> rmatch_result list" where
  "finditer f r s = finditer_from f r 0 s"

definition group :: "nat \<Rightarrow> rmatch_result \<Rightarrow> string" where
  "group n m = (case map_of (snd m) n of None \<Rightarrow> [] | Some g \<Rightarrow> g)"

definition findall0 :: "flags \<Rightarrow> regex \<Rightarrow> string \<Rightarrow> string list" where
  \<comment> \<open>\<open>re.findall\<close> for a pattern without groups: the matched texts\<close>
  "findall0 f r s = map fst (finditer f r s)"

definition findall1 :: "flags \<Rightarrow> regex \<Rightarrow> string \<Rightarrow> string list" where
  \<comment> \<open>\<open>re.findall\<close> for a pattern with one group: the group's texts\<close>
  "findall1 f r s = map (group 1) (finditer f r s)"

definition findall2 :: "flags \<Rightarrow> regex \<Rightarrow> string \<Rightarrow> (string \<times> string) list" where
  \<comment> \<open>\<open>re.findall\<close> for a pattern with two groups: pairs of texts\<close>
  "findall2 f r s = map (\<lambda>m. (group 1 m, group 2 m)) (finditer f r s)"

definition search1 :: "flags \<Rightarrow> regex \<Rightarrow> string \<Rightarrow> string option" where
  \<comment> \<open>\<open>re.search\<close> followed by \<open>.group(1)\<close>\<close>
  "search1 f r s = (case finditer f r s of [] \<Rightarrow> None | m # _ \<Rightarrow> Some (group 1 m))"

datatype titem = TLit string | TGroup nat

definition expand :: "titem list \<Rightarrow> rmatch_result \<Rightarrow> string" where
  "expand t m = concat (map (\<lambda>i. case i of TLit s \<Rightarrow> s | TGroup n \<Rightarrow> group n m) t)"

fun sub_from :: "flags \<Rightarrow> regex \<Rightarrow> titem list \<Rightarrow> nat \<Rightarrow> string \<Rightarrow> string" where
  "sub_from f r t (Suc k) [] = []"
| "sub_from f r t (Suc k) (c # cs) = sub_from f r t k cs"
| "sub_from f r t 0 [] = (case match_here f r [] of None \<Rightarrow> [] | Some m \<Rightarrow> expand t m)"
| "sub_from f r t 0 (c # cs) = (case match_here f r (c # cs) of
       None \<Rightarrow> c # sub_from f r t 0 cs
     | Some m \<Rightarrow> expand t m @ (if fst m = [] then c # sub_from f r t 0 cs
                              else sub_from f r t (length (fst m) - 1) cs))"

definition re_sub :: "flags \<Rightarrow> regex \<Rightarrow> titem list \<Rightarrow> string \<Rightarrow> string" where
  "re_sub f r t s = sub_from f r t 0 s"

subsection \<open>The section catalogue\<close>

definition until_marker :: "string \<Rightarrow> regex" where
  \<comment> \<open>\<open>MARKER.*?(?=---|$)\<close>\<close>
  "until_marker marker = seqs [Lit marker, LazyStar AnyChar, Ahead (Alt (Lit ''---'') Eos)]"

definition section_patterns :: "(string \<times> regex) list" where
  "section_patterns =
    [(''metadata'', until_marker ''--- METADATA''),
     (''raw_paragraph'', until_marker ''--- RAW PARAGRAPH''),
     (''inline_json'', until_marker ''--- INLINE JSON''),
     (''malformed_json'', until_marker ''--- MALFORMED JSON''),
     (''html_snippet'', until_marker ''--- HTML SNIPPET''),
     (''csv_section'', until_marker ''--- CSV-LIKE SECTION''),
     (''key_value'', until_marker ''--- KEY-VALUE KVP BLOCK''),
     (''json_ld'', until_marker ''--- JSON-LD''),
     (''inline_csv'', until_marker ''--- INLINE CSV TABLE''),
     (''free_text'', until_marker ''--- FREE TEXT''),
     (''ocr_footer'', until_marker ''--- OCR-LIKE PAGE FOOTER''),
     (''sql_snippet'', until_marker ''--- SQL-LIKE SNIPPET''),
     (''repeated_fields'', until_marker ''--- REPEATED FIELDS''),
     (''ambiguous_types'', until_marker ''--- AMBIGUOUS TYPES''),
     (''variant_v2'', seqs [Lit ''=== VARIANT v2 START ==='', LazyStar AnyChar,
                           Lit ''=== VARIANT v2 END ===''])]"

definition json_object_pattern :: regex where
  \<comment> \<open>\<open>\{[^{}]*(?:\{[^{}]*\}[^{}]*)*\}\<close>\<close>
  "json_object_pattern =
     (let nb = Star (NClass [CChar CHR ''{'', CChar CHR ''}''])
      in seqs [Lit ''{'', nb, Star (seqs [Lit ''{'', nb, Lit ''}'', nb]), Lit ''}''])"

definition extract_sections :: "string \<Rightarrow> (string \<times> string) list" where
  "extract_sections content =
     concat (map (\<lambda>(section_name, pattern).
        case findall0 DOTALL_IGNORECASE pattern content of [] \<Rightarrow> [] | m # _ \<Rightarrow> [(section_name, m)])
        section_patterns)"

section \<open>The section parsers\<close>

text \<open>
  The optional libraries are parameters of the parser: whether they were found at import time,
  and what they return.  \<open>read_csv\<close> stands for \<open>pd.read_csv\<close> followed by the conversion of
  every row to a dictionary; \<open>bs4_parse\<close> for the tables and scripts BeautifulSoup finds, every
  cell as its stripped text; \<open>now\<close> is the reading of the clock, \<open>datetime.now().isoformat()\<close>.
\<close>

record soup =
  tables :: "string list list list"
  scripts :: "(string option \<times> string option) list"

record env =
  has_pandas :: bool
  has_bs4 :: bool
  has_yaml :: bool
  read_csv :: "string \<Rightarrow> exn + pydict list"
  bs4_parse :: "string \<Rightarrow> exn + soup"
  yaml_safe_load :: "string \<Rightarrow> exn + pyval"
  now :: string

definition dq :: char where "dq = CHR 0x22"
definition sq :: char where "sq = CHR 0x27"

definition ws :: regex where "ws = Class [CSpace]"
definition word :: regex where "word = Class [CWord]"
definition digit :: regex where "digit = Class [CDigit]"
definition quote_opt :: regex where "quote_opt = Opt (Class [CChar dq, CChar sq])"

fun setitem :: "pyval \<Rightarrow> string \<Rightarrow> pyval \<Rightarrow> exn + pydict" where
  \<comment> \<open>\<open>obj[key] = v\<close> for a text key\<close>
  "setitem (PDict d) k v = Inr (dict_set k v d)"
| "setitem (PList xs) k v = Inl (TypeError ''list indices must be integers or slices, not str'')"
| "setitem (PStr x) k v =
     Inl (TypeError ([sq] @ ''str'' @ [sq] @ '' object does not support item assignment''))"
| "setitem (PInt i) k v =
     Inl (TypeError ([sq] @ ''int'' @ [sq] @ '' object does not support item assignment''))"
| "setitem (PFloat x) k v =
     Inl (TypeError ([sq] @ ''float'' @ [sq] @ '' object does not support item assignment''))"
| "setitem (PBool b) k v =
     Inl (TypeError ([sq] @ ''bool'' @ [sq] @ '' object does not support item assignment''))"
| "setitem PNone k v =
     Inl (TypeError ([sq] @ ''NoneType'' @ [sq] @ '' object does not support item assignment''))"

fun truthy :: "pyval \<Rightarrow> bool" where
  \<comment> \<open>\<open>if obj:\<close>; a float counts as zero when its text has no digit from 1 to 9 before the
      exponent\<close>
  "truthy PNone = False"
| "truthy (PBool b) = b"
| "truthy (PInt i) = (i \<noteq> 0)"
| "truthy (PFloat x) =
     (list_ex (\<lambda>c. c \<in> set ''123456789NI'') (takeWhile (\<lambda>c. c \<noteq> CHR ''e'' \<and> c \<noteq> CHR ''E'') x))"
| "truthy (PStr x) = (x \<noteq> [])"
| "truthy (PList xs) = (xs \<noteq> [])"
| "truthy (PDict d) = (d \<noteq> [])"

subsection \<open>Lines of the form key: value\<close>

definition is_kv_line :: "string \<Rightarrow> bool" where
  \<comment> \<open>\<open>':' in line and not line.strip().startswith('#') and not line.strip().startswith('---')\<close>\<close>
  "is_kv_line line =
     (if CHR '':'' \<in> set line
      then \<not> startswith (strip line) ''#'' \<and> \<not> startswith (strip line) ''---'' else False)"

definition metadata_line :: "pydict \<Rightarrow> string \<Rightarrow> pydict" where
  "metadata_line metadata line =
     (if is_kv_line line
      then (case split_first CHR '':'' line of (key, value) \<Rightarrow>
              dict_set (strip key) (PStr (strip value)) metadata)
      else metadata)"

definition parse_metadata :: "string \<Rightarrow> pydict list" where
  "parse_metadata content =
     (let metadata = foldl metadata_line [(''data_type'', PStr ''metadata'')]
                       (split_on CHR ''\<newline>'' content)
      in if length metadata > 1 then [metadata] else [])"

definition tag_parts :: "pydict \<Rightarrow> string list \<Rightarrow> pydict" where
  \<comment> \<open>\<open>for i, part in enumerate(parts): result[f'tag_{i}'] = part.strip()\<close>\<close>
  "tag_parts result parts =
     foldl (\<lambda>r ip. dict_set (''tag_'' @ str_nat (fst ip)) (PStr (strip (snd ip))) r) result
       (zip [0 ..< length parts] parts)"

definition key_value_line :: "pydict \<Rightarrow> string \<Rightarrow> pydict" where
  "key_value_line result line =
     (if is_kv_line line
      then (case split_first CHR '':'' line of (key, value) \<Rightarrow>
              dict_set (strip key) (PStr (strip value)) result)
      else if CHR '';'' \<in> set line \<and> \<not> startswith (strip line) ''#''
      then tag_parts result (split_on CHR '';'' line)
      else result)"

definition parse_key_value :: "string \<Rightarrow> pydict list" where
  "parse_key_value content =
     (let result = foldl key_value_line [(''data_type'', PStr ''key_value_pairs'')]
                     (split_on CHR ''\<newline>'' content)
      in if length result > 1 then [result] else [])"

definition repeated_line :: "pydict \<Rightarrow> string \<Rightarrow> pydict" where
  "repeated_line flds line =
     (if is_kv_line line
      then (case split_first CHR '':'' line of (k, v) \<Rightarrow>
        (let key = strip k; value = strip v
         in case dict_get flds key of
              Some (PList xs) \<Rightarrow> dict_set key (PList (xs @ [PStr value])) flds
            | Some old \<Rightarrow> dict_set key (PList [old, PStr value]) flds
            | None \<Rightarrow> dict_set key (PStr value) flds))
      else flds)"

definition parse_repeated_fields :: "string \<Rightarrow> pydict list" where
  "parse_repeated_fields content =
     (let flds = foldl repeated_line [] (split_on CHR ''\<newline>'' content)
      in if flds \<noteq> [] then [dict_set ''data_type'' (PStr ''repeated_fields'') flds] else [])"

subsection \<open>The repair cascade\<close>

definition trailing_comma :: regex where
  \<comment> \<open>\<open>,(\s*[}\]])\<close>\<close>
  "trailing_comma = seqs [Lit '','', Group 1 (Seq (Star ws) (Class [CChar CHR ''}'', CChar CHR '']'']))]"

definition quote_newline_quote :: regex where
  \<comment> \<open>\<open>"\s*\n\s*"\<close>\<close>
  "quote_newline_quote = seqs [Lit [dq], Star ws, Lit ''\<newline>'', Star ws, Lit [dq]]"

definition bare_key :: regex where
  \<comment> \<open>\<open>(\w+):\<close>\<close>
  "bare_key = Seq (Group 1 (Plus word)) (Lit '':'')"

definition fix_malformed_json :: "string \<Rightarrow> string" where
  "fix_malformed_json json_str =
     (let s1 = re_sub no_flags trailing_comma [TGroup 1] json_str;
          s2 = re_sub no_flags quote_newline_quote [TLit ([dq] @ '',\<newline>'' @ [dq])] s1
      in re_sub no_flags bare_key [TLit [dq], TGroup 1, TLit ([dq] @ '':'')] s2)"

definition line_comment :: regex where
  \<comment> \<open>\<open>//.*?\n\<close>\<close>
  "line_comment = seqs [Lit ''//'', LazyStar AnyChar, Lit ''\<newline>'']"

definition block_comment :: regex where
  \<comment> \<open>\<open>/\*.*?\*/\<close>\<close>
  "block_comment = seqs [Lit ''/*'', LazyStar AnyChar, Lit ''*/'']"

definition bare_value :: regex where
  \<comment> \<open>\<open>:\s*([a-zA-Z_][a-zA-Z0-9_]*)\s*([,}])\<close>\<close>
  "bare_value = seqs [Lit '':'', Star ws,
     Group 1 (Seq (Class [CSet a_z, CSet A_Z, CChar CHR ''_''])
                  (Star (Class [CSet a_z, CSet A_Z, CSet digits, CChar CHR ''_'']))),
     Star ws, Group 2 (Class [CChar CHR '','', CChar CHR ''}''])]"

definition trailing_comma2 :: regex where
  \<comment> \<open>\<open>,\s*([}\]])\<close>\<close>
  "trailing_comma2 = seqs [Lit '','', Star ws, Group 1 (Class [CChar CHR ''}'', CChar CHR '']''])]"

definition digit_newline_quote :: regex where
  \<comment> \<open>\<open>(\d)\s*\n\s*"\<close>\<close>
  "digit_newline_quote = seqs [Group 1 digit, Star ws, Lit ''\<newline>'', Star ws, Lit [dq]]"

definition brace_newline_quote :: regex where
  \<comment> \<open>\<open>}\s*\n\s*"\<close>\<close>
  "brace_newline_quote = seqs [Lit ''}'', Star ws, Lit ''\<newline>'', Star ws, Lit [dq]]"

definition aggressive_json_fix :: "string \<Rightarrow> string" where
  "aggressive_json_fix json_str =
     (let s1 = re_sub no_flags line_comment [] json_str;
          s2 = re_sub DOTALL block_comment [] s1;
          s3 = re_sub no_flags bare_value [TLit ('': '' @ [dq]), TGroup 1, TLit [dq], TGroup 2] s2;
          s4 = replace_char sq dq s3;
          s5 = re_sub no_flags trailing_comma2 [TGroup 1] s4;
          s6 = re_sub no_flags quote_newline_quote [TLit ([dq] @ '',\<newline>'' @ [dq])] s5;
          s7 = re_sub no_flags digit_newline_quote [TGroup 1, TLit ('',\<newline>'' @ [dq])] s6
      in re_sub no_flags brace_newline_quote [TLit (''},\<newline>'' @ [dq])] s7)"

definition key_colon :: "regex list" where
  \<comment> \<open>\<open>["\']?(\w+)["\']?\s*:\s*\<close>\<close>
  "key_colon = [quote_opt, Group 1 (Plus word), quote_opt, Star ws, Lit '':'', Star ws]"

definition string_field :: regex where
  \<comment> \<open>\<open>["\']?(\w+)["\']?\s*:\s*["\']([^"\']*)["\']\<close>\<close>
  "string_field = seqs (key_colon @ [Class [CChar dq, CChar sq],
     Group 2 (Star (NClass [CChar dq, CChar sq])), Class [CChar dq, CChar sq]])"

definition numeric_field :: regex where
  \<comment> \<open>\<open>["\']?(\w+)["\']?\s*:\s*(\d+(?:\.\d+)?)\<close>\<close>
  "numeric_field = seqs (key_colon @ [Group 2 (Seq (Plus digit) (Opt (Seq (Lit ''.'') (Plus digit))))])"

definition bool_field :: regex where
  \<comment> \<open>\<open>["\']?(\w+)["\']?\s*:\s*(true|false)\<close>\<close>
  "bool_field = seqs (key_colon @ [Group 2 (Alt (Lit ''true'') (Lit ''false''))])"

definition array_field :: regex where
  \<comment> \<open>\<open>["\']?(\w+)["\']?\s*:\s*\[([^\]]*)\]\<close>\<close>
  "array_field = seqs (key_colon @ [Lit ''['', Group 2 (Star (NClass [CChar CHR '']''])), Lit '']''])"

definition array_items :: "string \<Rightarrow> pyval" where
  \<comment> \<open>the non-empty items of \<open>[item.strip().strip('"\'') for item in array_content.split(',')]\<close>\<close>
  "array_items array_content =
     PList (map PStr (filter (\<lambda>item. item \<noteq> [])
       (map (\<lambda>item. strip_chars [dq, sq] (strip item)) (split_on CHR '','' array_content))))"

definition extract_json_fields_manually :: "string \<Rightarrow> pyval" where
  "extract_json_fields_manually json_str =
     (let r1 = foldl (\<lambda>r kv. dict_set (fst kv) (PStr (snd kv)) r) []
                 (findall2 no_flags string_field json_str);
          r2 = foldl (\<lambda>r kv. dict_set (fst kv)
                   (if CHR ''.'' \<notin> set (snd kv) then PInt (int_of_digits (snd kv))
                    else PFloat (snd kv)) r) r1
                 (findall2 no_flags numeric_field json_str);
          r3 = foldl (\<lambda>r kv. dict_set (fst kv) (PBool (lower (snd kv) = ''true'')) r) r2
                 (findall2 IGNORECASE bool_field json_str);
          r4 = foldl (\<lambda>r kv. dict_set (fst kv) (array_items (snd kv)) r) r3
                 (findall2 no_flags array_field json_str)
      in if r4 \<noteq> [] then PDict r4 else PNone)"

definition readable_part :: regex where
  \<comment> \<open>\<open>["\']?(\w+)["\']?\s*:\s*["\']?([^,"\']*)["\']?\<close>\<close>
  "readable_part = seqs (key_colon @ [quote_opt,
     Group 2 (Star (NClass [CChar CHR '','', CChar dq, CChar sq])), quote_opt])"

definition extract_readable_content :: "string \<Rightarrow> string" where
  "extract_readable_content json_str =
     (let content = re_sub no_flags (Plus ws) [TLit '' ''] (strip_chars ''{}'' json_str);
          readable_parts = findall2 no_flags readable_part content
      in if readable_parts \<noteq> []
         then join ''; '' (map (\<lambda>kv. fst kv @ '': '' @ strip (snd kv)) readable_parts)
         else if length content > 100 then take 100 content @ ''...'' else content)"

definition last_resort :: "string \<Rightarrow> pyval" where
  "last_resort json_str = PDict
     [(''raw_content'', PStr (strip json_str)),
      (''parsing_error'', PStr ''Could not parse as valid JSON''),
      (''extracted_text'', PStr (extract_readable_content json_str))]"

text \<open>
  Strategies 1 and 2 pass to the next strategy on a \<open>JSONDecodeError\<close> only; any other exception
  leaves the cascade.  Strategy 3 returns what the manual extraction returns, which is \<open>None\<close>
  when no field was recognised; the manual extraction has no raising branch, so the last resort
  stands behind an \<open>except\<close> that nothing here reaches.
\<close>

definition attempt_json_fixes :: "string \<Rightarrow> exn + pyval" where
  "attempt_json_fixes json_str =
     (case json_loads (fix_malformed_json json_str) of
        Inr v \<Rightarrow> Inr v
      | Inl (JSONDecodeError m) \<Rightarrow>
          (case json_loads (aggressive_json_fix json_str) of
             Inr v \<Rightarrow> Inr v
           | Inl (JSONDecodeError m') \<Rightarrow> Inr (extract_json_fields_manually json_str)
           | Inl e \<Rightarrow> Inl e)
      | Inl e \<Rightarrow> Inl e)"

subsection \<open>JSON sections\<close>

text \<open>
  A loop that appends to a local result list and may be left by an exception: the results of the
  items in order, or the first exception.
\<close>

fun collect :: "('a \<Rightarrow> exn + 'b list) \<Rightarrow> 'a list \<Rightarrow> exn + 'b list" where
  "collect f [] = Inr []"
| "collect f (x # xs) =
     (case f x of
        Inl e \<Rightarrow> Inl e
      | Inr rs \<Rightarrow> (case collect f xs of Inl e \<Rightarrow> Inl e | Inr rs' \<Rightarrow> Inr (rs @ rs')))"

definition fixed_record :: "string \<Rightarrow> exn + pydict list" where
  \<comment> \<open>the cascade on one candidate, and the record made of what it returns\<close>
  "fixed_record json_str =
     (case attempt_json_fixes json_str of
        Inl e \<Rightarrow> Inl e
      | Inr parsed_obj \<Rightarrow>
          if truthy parsed_obj then
            (case setitem parsed_obj ''data_type'' (PStr ''json_object'') of
               Inl e \<Rightarrow> Inl e
             | Inr d \<Rightarrow> Inr [dict_set ''was_malformed'' (PBool True) d])
          else Inr [])"

definition array_item_record :: "pyval \<Rightarrow> pydict list" where
  "array_item_record item =
     (case item of
        PDict d \<Rightarrow> [dict_set ''from_array'' (PBool True) (dict_set ''was_malformed'' (PBool False)
                     (dict_set ''data_type'' (PStr ''json_object'') d))]
      | _ \<Rightarrow> [])"

definition json_section_candidate :: "string \<Rightarrow> exn + pydict list" where
  "json_section_candidate json_str =
     (case json_loads json_str of
        Inr (PDict d) \<Rightarrow>
          Inr [dict_set ''was_malformed'' (PBool False) (dict_set ''data_type'' (PStr ''json_object'') d)]
      | Inr (PList items) \<Rightarrow> Inr (concat (map array_item_record items))
      | Inr _ \<Rightarrow> Inr []
      | Inl (JSONDecodeError m) \<Rightarrow> fixed_record json_str
      | Inl e \<Rightarrow> Inl e)"

definition parse_json_section :: "string \<Rightarrow> exn + pydict list" where
  "parse_json_section content =
     collect json_section_candidate (findall0 DOTALL json_object_pattern content)"

definition parse_malformed_json :: "string \<Rightarrow> exn + pydict list" where
  "parse_malformed_json content =
     collect fixed_record (findall0 DOTALL json_object_pattern content)"

definition json_ld_pattern :: regex where
  \<comment> \<open>\<open><script[^>]*type="application/ld\+json"[^>]*>(.*?)</script>\<close>\<close>
  "json_ld_pattern = seqs [Lit ''<script'', Star (NClass [CChar CHR ''>'']),
     Lit (''type='' @ [dq] @ ''application/ld+json'' @ [dq]), Star (NClass [CChar CHR ''>'']),
     Lit ''>'', Group 1 (LazyStar AnyChar), Lit ''</script>'']"

definition json_ld_match :: "string \<Rightarrow> exn + pydict list" where
  "json_ld_match m =
     (case json_loads (strip m) of
        Inr parsed \<Rightarrow>
          (case setitem parsed ''data_type'' (PStr ''json_ld'') of
             Inl e \<Rightarrow> Inl e
           | Inr d \<Rightarrow> Inr [d])
      | Inl (JSONDecodeError msg) \<Rightarrow>
          Inr [[(''data_type'', PStr ''malformed_json_ld''), (''raw_content'', PStr (strip m)),
                (''error'', PStr msg)]]
      | Inl e \<Rightarrow> Inl e)"

definition parse_json_ld :: "string \<Rightarrow> exn + pydict list" where
  "parse_json_ld content = collect json_ld_match (findall1 DOTALL json_ld_pattern content)"

subsection \<open>Tables\<close>

definition is_csv_line :: "string \<Rightarrow> bool" where
  "is_csv_line line =
     (if CHR '','' \<in> set line
      then \<not> startswith (strip line) ''#'' \<and> \<not> startswith (strip line) ''---'' else False)"

definition row_of :: "string list \<Rightarrow> string list \<Rightarrow> pydict" where
  \<comment> \<open>\<open>for i, value in enumerate(values): row[headers[i]] = value\<close>\<close>
  "row_of headers values = foldl (\<lambda>d hv. dict_set (fst hv) (PStr (snd hv)) d) [] (zip headers values)"

definition manual_csv_row :: "string list \<Rightarrow> string \<Rightarrow> pydict list" where
  "manual_csv_row headers line =
     (let values = map strip (split_on CHR '','' line)
      in if length values = length headers
         then [dict_set ''data_type'' (PStr ''csv_row'') (row_of headers values)] else [])"

definition parse_csv_section :: "env \<Rightarrow> string \<Rightarrow> pydict list" where
  "parse_csv_section ev content =
     (let csv_lines = filter is_csv_line (split_on CHR ''\<newline>'' (strip content))
      in case csv_lines of
           first # second # others \<Rightarrow>
             if has_pandas ev then
               (case read_csv ev (join ''\<newline>'' csv_lines) of
                  Inr rows \<Rightarrow> map (dict_set ''data_type'' (PStr ''csv_row'')) rows
                | Inl e \<Rightarrow> [[(''data_type'', PStr ''malformed_csv''),
                             (''raw_content'', PStr (join ''\<newline>'' csv_lines)),
                             (''error'', PStr (str_exn e))]])
             else concat (map (manual_csv_row (map strip (split_on CHR '','' first))) (second # others))
         | _ \<Rightarrow> [])"

definition tr_pattern :: regex where
  \<comment> \<open>\<open><tr[^>]*>(.*?)</tr>\<close>\<close>
  "tr_pattern = seqs [Lit ''<tr'', Star (NClass [CChar CHR ''>'']), Lit ''>'',
     Group 1 (LazyStar AnyChar), Lit ''</tr>'']"

definition th_pattern :: regex where
  \<comment> \<open>\<open><th[^>]*>(.*?)</th>\<close>\<close>
  "th_pattern = seqs [Lit ''<th'', Star (NClass [CChar CHR ''>'']), Lit ''>'',
     Group 1 (LazyStar AnyChar), Lit ''</th>'']"

definition td_pattern :: regex where
  \<comment> \<open>\<open><td[^>]*>(.*?)</td>\<close>\<close>
  "td_pattern = seqs [Lit ''<td'', Star (NClass [CChar CHR ''>'']), Lit ''>'',
     Group 1 (LazyStar AnyChar), Lit ''</td>'']"

definition any_tag :: regex where
  \<comment> \<open>\<open><[^>]+>\<close>\<close>
  "any_tag = seqs [Lit ''<'', Plus (NClass [CChar CHR ''>'']), Lit ''>'']"

definition simple_html_row :: "string list \<Rightarrow> string \<Rightarrow> pydict list" where
  "simple_html_row header_cells row =
     (let data_cells = findall1 IGNORECASE td_pattern row
      in if length data_cells = length header_cells
         then [dict_set ''data_type'' (PStr ''html_table_row'')
                 (row_of (map strip header_cells)
                    (map (\<lambda>cell. strip (re_sub no_flags any_tag [] cell)) data_cells))]
         else [])"

definition parse_html_simple :: "string \<Rightarrow> pydict list" where
  "parse_html_simple content =
     (case findall1 DOTALL_IGNORECASE tr_pattern content of
        first # second # others \<Rightarrow>
          (let th_cells = findall1 IGNORECASE th_pattern first;
               header_cells = (if th_cells = [] then findall1 IGNORECASE td_pattern first else th_cells)
           in concat (map (simple_html_row header_cells) (second # others)))
      | _ \<Rightarrow> [])"

definition extract_table_data :: "string list list \<Rightarrow> pydict list" where
  "extract_table_data table =
     (let headers = (case table of [] \<Rightarrow> [] | header_row # _ \<Rightarrow> header_row)
      in concat (map (\<lambda>cells. if length cells = length headers
                        then [dict_set ''data_type'' (PStr ''html_table_row'') (row_of headers cells)]
                        else []) (drop 1 table)))"

definition script_record :: "string option \<times> string option \<Rightarrow> pydict list" where
  \<comment> \<open>both the decoding and the assignment stand under \<open>except: pass\<close>\<close>
  "script_record script =
     (if fst script = Some ''application/ld+json'' then
        (case snd script of
           None \<Rightarrow> []
         | Some text \<Rightarrow>
             (case json_loads text of
                Inl e \<Rightarrow> []
              | Inr json_data \<Rightarrow>
                  (case setitem json_data ''data_type'' (PStr ''json_ld_from_html'') of
                     Inl e \<Rightarrow> [] | Inr d \<Rightarrow> [d])))
      else [])"

definition parse_html_section :: "env \<Rightarrow> string \<Rightarrow> pydict list" where
  "parse_html_section ev content =
     (if \<not> has_bs4 ev then parse_html_simple content
      else case bs4_parse ev content of
          Inl e \<Rightarrow> [[(''data_type'', PStr ''raw_html''), (''content'', PStr content),
                       (''parse_error'', PStr (str_exn e))]]
        | Inr sp \<Rightarrow> concat (map extract_table_data (tables sp)) @ concat (map script_record (scripts sp)))"

subsection \<open>Ambiguous types\<close>

definition digitpart :: regex where
  "digitpart = Seq digit (Star (Seq (Opt (Lit ''_'')) digit))"

definition float_literal :: regex where
  \<comment> \<open>what \<open>float(s)\<close> accepts after stripping whitespace, under \<open>IGNORECASE\<close>\<close>
  "float_literal = Seq (Opt (Class [CChar CHR ''+'', CChar CHR ''-'']))
     (Alt (Alt (Lit ''infinity'') (Alt (Lit ''inf'') (Lit ''nan'')))
          (Seq (Alt (Seq digitpart (Opt (Seq (Lit ''.'') (Opt digitpart)))) (Seq (Lit ''.'') digitpart))
               (Opt (seqs [Lit ''e'', Opt (Class [CChar CHR ''+'', CChar CHR ''-'']), digitpart]))))"

definition fullmatch :: "flags \<Rightarrow> regex \<Rightarrow> string \<Rightarrow> bool" where
  "fullmatch f r s = list_ex (\<lambda>st. fst st = []) (rmatch f r (s, []))"

definition is_float :: "string \<Rightarrow> bool" where
  \<comment> \<open>\<open>float(value)\<close> does not raise, and \<open>'.' in value\<close>\<close>
  "is_float v = (if fullmatch IGNORECASE float_literal (strip v) then CHR ''.'' \<in> set v else False)"

definition isdigit :: "string \<Rightarrow> bool" where
  \<comment> \<open>\<open>value.isdigit()\<close>\<close>
  "isdigit v = (v \<noteq> [] \<and> list_all is_pydigit v)"

definition ambiguous_line :: "pydict \<Rightarrow> string \<Rightarrow> pydict" where
  \<comment> \<open>\<open>int(value)\<close> raises \<open>ValueError\<close> on a superscript digit, and the line is skipped\<close>
  "ambiguous_line result line =
     (if is_kv_line line
      then (case split_first CHR '':'' line of (k, v) \<Rightarrow>
        (let key = strip k; value = strip_chars [dq] (strip v)
         in if lower value = ''true'' \<or> lower value = ''false''
            then dict_set (key @ ''_original'') (PStr value)
                   (dict_set key (PBool (lower value = ''true'')) result)
            else if value = ''N/A''
            then dict_set (key @ ''_original'') (PStr value) (dict_set key PNone result)
            else if isdigit value
            then (if list_all is_digit value
                  then dict_set (key @ ''_original'') (PStr value)
                         (dict_set key (PInt (int_of_digits value)) result)
                  else result)
            else if is_float value
            then dict_set (key @ ''_original'') (PStr value) (dict_set key (PFloat value) result)
            else dict_set key (PStr value) result))
      else result)"

definition parse_ambiguous_types :: "string \<Rightarrow> pydict list" where
  "parse_ambiguous_types content =
     (let result = foldl ambiguous_line [(''data_type'', PStr ''ambiguous_types'')]
                     (split_on CHR ''\<newline>'' content)
      in if length result > 1 then [result] else [])"

subsection \<open>Variant blocks\<close>

definition variant_candidate :: "string \<Rightarrow> exn + pydict list" where
  "variant_candidate json_str =
     (case json_loads json_str of
        Inr parsed \<Rightarrow>
          (case setitem parsed ''data_type'' (PStr ''schema_variant'') of
             Inl e \<Rightarrow> Inl e
           | Inr d \<Rightarrow> Inr [dict_set ''version'' (PStr ''v2'') d])
      | Inl (JSONDecodeError m) \<Rightarrow> Inr []
      | Inl e \<Rightarrow> Inl e)"

definition yaml_pattern :: regex where
  \<comment> \<open>\<open>---\n(.*?)\n---\<close>\<close>
  "yaml_pattern = seqs [Lit ''---\<newline>'', Group 1 (LazyStar AnyChar), Lit ''\<newline>---'']"

definition yaml_match :: "env \<Rightarrow> string \<Rightarrow> exn + pydict list" where
  "yaml_match ev yaml_str =
     (case yaml_safe_load ev yaml_str of
        Inr (PDict d) \<Rightarrow> Inr [dict_set ''data_type'' (PStr ''yaml_frontmatter'') d]
      | Inr _ \<Rightarrow> Inr []
      | Inl (YAMLError m) \<Rightarrow> Inr []
      | Inl e \<Rightarrow> Inl e)"

definition variant_csv_row :: "string list \<Rightarrow> string \<Rightarrow> pydict list" where
  "variant_csv_row headers line =
     (let values = split_on CHR '','' line
      in if length values = length headers
         then [dict_set ''data_type'' (PStr ''variant_csv_row'')
                 (row_of (map strip headers) (map strip values))]
         else [])"

definition variant_csv :: "env \<Rightarrow> string \<Rightarrow> pydict list" where
  \<comment> \<open>the whole block stands under \<open>except: pass\<close>\<close>
  "variant_csv ev content =
     (let csv_lines = filter (\<lambda>line. if CHR '','' \<in> set line then \<not> startswith (strip line) ''#''
                                     else False) (split_on CHR ''\<newline>'' content)
      in case csv_lines of
           first # second # others \<Rightarrow>
             if has_pandas ev then
               (case read_csv ev (join ''\<newline>'' csv_lines) of
                  Inr rows \<Rightarrow> map (dict_set ''data_type'' (PStr ''variant_csv_row'')) rows
                | Inl e \<Rightarrow> [])
             else concat (map (variant_csv_row (split_on CHR '','' first)) (second # others))
         | _ \<Rightarrow> [])"

definition parse_variant_section :: "env \<Rightarrow> string \<Rightarrow> exn + pydict list" where
  "parse_variant_section ev content =
     (case collect variant_candidate (findall0 DOTALL json_object_pattern content) of
        Inl e \<Rightarrow> Inl e
      | Inr from_json \<Rightarrow>
          (case (if has_yaml ev then collect (yaml_match ev) (findall1 DOTALL yaml_pattern content)
                 else Inr []) of
             Inl e \<Rightarrow> Inl e
           | Inr from_yaml \<Rightarrow> Inr (from_json @ from_yaml @ variant_csv ev content)))"

subsection \<open>Prose\<close>

definition price_patterns :: "regex list" where
  \<comment> \<open>\<open>\$?\d+\.?\d*\s*USD\<close>, \<open>\$\d+\.?\d*\<close>, \<open>\d+[.,]\d+\<close>, \<open>price[:\s]+[\$]?\d+\.?\d*\<close>\<close>
  "price_patterns =
    [seqs [Opt (Lit ''$''), Plus digit, Opt (Lit ''.''), Star digit, Star ws, Lit ''USD''],
     seqs [Lit ''$'', Plus digit, Opt (Lit ''.''), Star digit],
     seqs [Plus digit, Class [CChar CHR ''.'', CChar CHR '',''], Plus digit],
     seqs [Lit ''price'', Plus (Class [CChar CHR '':'', CSpace]), Opt (Class [CChar CHR ''$'']),
           Plus digit, Opt (Lit ''.''), Star digit]]"

definition date_patterns :: "regex list" where
  \<comment> \<open>\<open>\d{4}-\d{2}-\d{2}\<close>, \<open>\d{2}/\d{2}/\d{4}\<close>, \<open>\d{2}-\d{2}-\d{4}\<close>,
      \<open>\w+\s+\d{1,2},\s+\d{4}\<close>, \<open>\d{4}/\d{2}/\d{2}\<close>\<close>
  "date_patterns =
    [seqs [Rep 4 4 digit, Lit ''-'', Rep 2 2 digit, Lit ''-'', Rep 2 2 digit],
     seqs [Rep 2 2 digit, Lit ''/'', Rep 2 2 digit, Lit ''/'', Rep 4 4 digit],
     seqs [Rep 2 2 digit, Lit ''-'', Rep 2 2 digit, Lit ''-'', Rep 4 4 digit],
     seqs [Plus word, Plus ws, Rep 1 2 digit, Lit '','', Plus ws, Rep 4 4 digit],
     seqs [Rep 4 4 digit, Lit ''/'', Rep 2 2 digit, Lit ''/'', Rep 2 2 digit]]"

definition quoted_pattern :: regex where
  \<comment> \<open>\<open>"([^"]*)"\<close>\<close>
  "quoted_pattern = seqs [Lit [dq], Group 1 (Star (NClass [CChar dq])), Lit [dq]]"

definition set_if_any :: "string \<Rightarrow> string list \<Rightarrow> pydict \<Rightarrow> pydict" where
  \<comment> \<open>\<open>if found: result[key] = found\<close>\<close>
  "set_if_any key found result = (if found \<noteq> [] then dict_set key (PList (map PStr found)) result else result)"

definition parse_raw_text :: "string \<Rightarrow> pydict list" where
  "parse_raw_text content =
     (let r0 = [(''data_type'', PStr ''raw_text_analysis'')];
          r1 = set_if_any ''extracted_prices''
                 (concat (map (\<lambda>pattern. findall0 IGNORECASE pattern content) price_patterns)) r0;
          r2 = set_if_any ''extracted_dates''
                 (concat (map (\<lambda>pattern. findall0 no_flags pattern content) date_patterns)) r1;
          r3 = set_if_any ''quoted_strings'' (findall1 no_flags quoted_pattern content) r2;
          r4 = dict_set ''word_count'' (PInt (int (length (split_ws content)))) r3;
          r5 = dict_set ''char_count'' (PInt (int (length content))) r4
      in [dict_set ''line_count'' (PInt (int (length (split_on CHR ''\<newline>'' content)))) r5])"

definition js_pattern :: regex where
  \<comment> \<open>\<open>var\s+\w+\s*=\s*(\{[^}]+\})\<close>\<close>
  "js_pattern = seqs [Lit ''var'', Plus ws, Plus word, Star ws, Lit ''='', Star ws,
     Group 1 (seqs [Lit ''{'', Plus (NClass [CChar CHR ''}'']), Lit ''}''])]"

definition phone_pattern :: regex where
  \<comment> \<open>\<open>\(?\d{3}\)?[-.\s]?\d{3}[-.\s]?\d{4}\<close>\<close>
  "phone_pattern = seqs [Opt (Lit ''(''), Rep 3 3 digit, Opt (Lit '')''),
     Opt (Class [CChar CHR ''-'', CChar CHR ''.'', CSpace]), Rep 3 3 digit,
     Opt (Class [CChar CHR ''-'', CChar CHR ''.'', CSpace]), Rep 4 4 digit]"

definition promo_pattern :: regex where
  \<comment> \<open>\<open>promo code:\s*([A-Z0-9]+)\<close>\<close>
  "promo_pattern = seqs [Lit ''promo code:'', Star ws, Group 1 (Plus (Class [CSet A_Z, CSet digits]))]"

definition js_record :: "string \<Rightarrow> pydict" where
  \<comment> \<open>both the decoding and the assignment stand under a bare \<open>except\<close>\<close>
  "js_record js_obj =
     (let malformed = [(''data_type'', PStr ''malformed_js_object''), (''raw_content'', PStr js_obj)]
      in case json_loads (replace_char sq dq js_obj) of
           Inl e \<Rightarrow> malformed
         | Inr parsed \<Rightarrow>
             (case setitem parsed ''data_type'' (PStr ''javascript_object'') of
                Inl e \<Rightarrow> malformed | Inr d \<Rightarrow> d))"

definition parse_free_text :: "string \<Rightarrow> pydict list" where
  "parse_free_text content =
     (let phones = findall0 no_flags phone_pattern content;
          promos = findall1 IGNORECASE promo_pattern content
      in map js_record (findall1 no_flags js_pattern content)
         @ (if phones \<noteq> [] then [[(''data_type'', PStr ''contact_info''),
                                    (''phone_numbers'', PList (map PStr phones))]] else [])
         @ (if promos \<noteq> [] then [[(''data_type'', PStr ''promotional_info''),
                                    (''promo_codes'', PList (map PStr promos))]] else []))"

definition after_colon :: "string \<Rightarrow> string" where
  \<comment> \<open>\<open>line.split(':', 1)[1].strip() if ':' in line else line\<close>\<close>
  "after_colon line = (if CHR '':'' \<in> set line then strip (snd (split_first CHR '':'' line)) else line)"

definition ocr_line :: "pydict \<Rightarrow> string \<Rightarrow> pydict" where
  "ocr_line result raw_line =
     (let line = strip raw_line; low = lower line
      in if contains low ''page'' then dict_set ''page_info'' (PStr line) result
         else if contains low ''document title''
         then dict_set ''document_title'' (PStr (after_colon line)) result
         else if contains low ''l0cation'' \<or> contains low ''location''
         then dict_set ''ocr_errors_detected'' (PBool True)
                (dict_set ''location'' (PStr (after_colon line)) result)
         else if contains low ''total'' then dict_set ''total_info'' (PStr line) result
         else result)"

definition parse_ocr_footer :: "string \<Rightarrow> pydict list" where
  "parse_ocr_footer content =
     (let result = foldl ocr_line [(''data_type'', PStr ''ocr_footer'')]
                     (split_on CHR ''\<newline>'' (strip content))
      in if length result > 1 then [result] else [])"

definition parse_generic_text :: "string \<Rightarrow> string \<Rightarrow> pydict list" where
  "parse_generic_text content section_type =
     [[(''data_type'', PStr (''generic_'' @ section_type)),
       (''content'', PStr (strip content)),
       (''word_count'', PInt (int (length (split_ws content)))),
       (''char_count'', PInt (int (length content)))]]"

section \<open>Parsing a file\<close>

definition scraped_pattern :: regex where
  \<comment> \<open>\<open>scraped_at:\s*([^\n]+)\<close>\<close>
  "scraped_pattern = seqs [Lit ''scraped_at:'', Star ws, Group 1 (Plus (NClass [CChar CHR ''\<newline>'']))]"

definition source_pattern :: regex where
  \<comment> \<open>\<open>source:\s*(https?://[^\n\s]+)\<close>\<close>
  "source_pattern = seqs [Lit ''source:'', Star ws,
     Group 1 (seqs [Lit ''http'', Opt (Lit ''s''), Lit ''://'',
                    Plus (NClass [CChar CHR ''\<newline>'', CSpace])])]"

definition extract_global_metadata :: "env \<Rightarrow> string \<Rightarrow> string \<Rightarrow> pydict" where
  "extract_global_metadata ev content filename =
     (let m0 = [(''source_file'', PStr filename),
                (''processed_at'', PStr (now ev)),
                (''file_size_chars'', PInt (int (length content))),
                (''total_lines'', PInt (int (length (split_on CHR ''\<newline>'' content))))];
          m1 = (case search1 no_flags scraped_pattern content of
                  Some g \<Rightarrow> dict_set ''scraped_at'' (PStr (strip g)) m0 | None \<Rightarrow> m0)
      in case search1 no_flags source_pattern content of
           Some g \<Rightarrow> dict_set ''source_url'' (PStr (strip g)) m1 | None \<Rightarrow> m1)"

definition parse_section :: "env \<Rightarrow> string \<Rightarrow> string \<Rightarrow> exn + pydict list" where
  "parse_section ev section_type content =
     (if section_type = ''metadata'' then Inr (parse_metadata content)
      else if section_type = ''inline_json'' then parse_json_section content
      else if section_type = ''malformed_json'' then parse_malformed_json content
      else if section_type = ''html_snippet'' then Inr (parse_html_section ev content)
      else if section_type = ''csv_section'' \<or> section_type = ''inline_csv''
        then Inr (parse_csv_section ev content)
      else if section_type = ''key_value'' then Inr (parse_key_value content)
      else if section_type = ''json_ld'' then parse_json_ld content
      else if section_type = ''repeated_fields'' then Inr (parse_repeated_fields content)
      else if section_type = ''ambiguous_types'' then Inr (parse_ambiguous_types content)
      else if section_type = ''variant_v2'' then parse_variant_section ev content
      else if section_type = ''raw_paragraph'' then Inr (parse_raw_text content)
      else if section_type = ''free_text'' then Inr (parse_free_text content)
      else if section_type = ''ocr_footer'' then Inr (parse_ocr_footer content)
      else Inr (parse_generic_text content section_type))"

definition fallback_record :: "string \<Rightarrow> string \<Rightarrow> string \<Rightarrow> exn \<Rightarrow> pydict" where
  "fallback_record filename section_type section_content e =
     [(''section_type'', PStr section_type),
      (''raw_content'', PStr (take 500 section_content)),
      (''parse_error'', PStr (str_exn e)),
      (''source_file'', PStr filename)]"

definition parse_step :: "env \<Rightarrow> string \<Rightarrow> pydict list \<Rightarrow> string \<times> string \<Rightarrow> pydict list" where
  \<comment> \<open>the body of the loop over the sections\<close>
  "parse_step ev filename parsed_data sec =
     (case parse_section ev (fst sec) (snd sec) of
        Inr section_data \<Rightarrow> if section_data \<noteq> [] then parsed_data @ section_data else parsed_data
      | Inl e \<Rightarrow> parsed_data @ [fallback_record filename (fst sec) (snd sec) e])"

definition parse_file :: "env \<Rightarrow> string \<Rightarrow> string \<Rightarrow> pydict list" where
  "parse_file ev content filename =
     (let parsed_data = foldl (parse_step ev filename) [] (extract_sections content)
      in if parsed_data \<noteq> []
         then map (\<lambda>record. dict_update record (extract_global_metadata ev content filename)) parsed_data
         else [])"

section \<open>The export endpoint\<close>

text \<open>
  \<open>export_schema\<close> of \<open>main.py\<close>.  The engine is not among the sources: the dictionary
  \<open>schema_engine.schema_versions\<close> and the engine's own \<open>export_schema\<close> are parameters.  The
  body of the handler stands in a \<open>try\<close> whose \<open>except Exception\<close> also catches the
  \<open>HTTPException\<close> raised inside it.
\<close>

datatype http_exception = HTTPException nat string

datatype raised = Http http_exception | Raised exn

fun str_raised :: "raised \<Rightarrow> string" where
  \<comment> \<open>\<open>str(e)\<close>; Starlette prints an \<open>HTTPException\<close> as its status code, a colon and the detail\<close>
  "str_raised (Http (HTTPException status_code detail)) = str_nat status_code @ '': '' @ detail"
| "str_raised (Raised e) = str_exn e"

definition export_schema ::
  "(string \<times> 'v) list \<Rightarrow> (string \<Rightarrow> exn + 'a) \<Rightarrow> string \<Rightarrow> http_exception + 'a" where
  "export_schema schema_versions engine_export_schema version_id =
     (case (if version_id \<notin> set (map fst schema_versions)
            then Inl (Http (HTTPException 404 (''Schema version '' @ version_id @ '' not found'')))
            else (case engine_export_schema version_id of
                    Inl e \<Rightarrow> Inl (Raised e)
                  | Inr schema_export \<Rightarrow> Inr schema_export)) of
        Inr schema_export \<Rightarrow> Inr schema_export
      | Inl e \<Rightarrow> Inl (HTTPException 500 (''Failed to export schema: '' @ str_raised e)))"


section \<open>The schema engine\<close>

text \<open>
  The module \<open>src/schema_inference/engine.py\<close> is imported by \<open>main.py\<close> and \<open>pipeline.py\<close> and is
  not among the sources.  What follows is written from the specification (its sections 3, 4.4
  and 4.5), not from code.
\<close>

datatype dtype = TString | TInteger | TFloat | TBoolean | TDate | TNull | TObject | TArray

record field_schema =
  inferred_type :: dtype
  matching :: nat
  non_null :: nat
  nullable :: bool
  sample_values :: "pyval list"

definition confidence_bucket :: "field_schema \<Rightarrow> nat" where
  \<comment> \<open>Modelled from the spec: the confidence of a field, which is \<open>matching / non_null\<close> (and 0
      for a field that is null throughout), bucketed to two decimals: in hundredths, rounded
      half up\<close>
  "confidence_bucket fs =
     (if non_null fs = 0 then 0 else (200 * matching fs + non_null fs) div (2 * non_null fs))"

datatype change_kind = field_added | field_removed | type_changed | confidence_changed

datatype change_value = NoValue | TypeValue dtype | BucketValue nat

record change =
  change_kind :: change_kind
  change_field :: string
  old_value :: change_value
  new_value :: change_value

type_synonym content_hash = "(string \<times> dtype \<times> nat) list"

record schema_version =
  version :: nat
  timestamp :: string
  hash :: content_hash
  schema :: "(string \<times> field_schema) list"
  changes :: "change list"
  source_id :: string

record schema_store =
  history :: "schema_version list"
  hash_index :: "(content_hash \<times> nat) list"
  current :: "(string \<times> nat) list"
  next_id :: nat

datatype schema_error = InvalidSourceBatch | SchemaVersionNotFound | InternalInvariantViolation

definition empty_store :: schema_store where
  \<comment> \<open>Modelled from the spec: the SchemaStore before any batch, every source uninitialised\<close>
  "empty_store = \<lparr>history = [], hash_index = [], current = [], next_id = 1\<rparr>"

definition int_literal :: regex where
  "int_literal = Seq (Opt (Class [CChar CHR ''+'', CChar CHR ''-''])) digitpart"

definition classify :: "pyval \<Rightarrow> dtype" where
  \<comment> \<open>Modelled from the spec: the Field Type Inferencer's class of one value: native match, then
      integer literal, float literal, date pattern, string\<close>
  "classify v =
     (case v of
        PNone \<Rightarrow> TNull
      | PBool b \<Rightarrow> TBoolean
      | PInt i \<Rightarrow> TInteger
      | PFloat x \<Rightarrow> TFloat
      | PDict d \<Rightarrow> TObject
      | PList xs \<Rightarrow> TArray
      | PStr s \<Rightarrow>
          if fullmatch no_flags int_literal (strip s) then TInteger
          else if fullmatch IGNORECASE float_literal (strip s) then TFloat
          else if list_ex (\<lambda>pattern. finditer no_flags pattern s \<noteq> []) date_patterns then TDate
          else TString)"

definition observed :: "pydict list \<Rightarrow> string \<Rightarrow> pyval list" where
  \<comment> \<open>Modelled from the spec: every value observed for a field in a batch, a list value
      unwrapped into its elements, an absent field observed as null\<close>
  "observed records f =
     concat (map (\<lambda>r. case dict_get r f of
                          None \<Rightarrow> [PNone] | Some (PList xs) \<Rightarrow> xs | Some v \<Rightarrow> [v]) records)"

definition majority :: "dtype list \<Rightarrow> dtype" where
  \<comment> \<open>Modelled from the spec: the majority class, ties broken by the specificity order
      integer, float, date, boolean, string, object, array\<close>
  "majority classes =
     foldl (\<lambda>best t. if count_list classes best < count_list classes t then t else best)
       TInteger [TFloat, TDate, TBoolean, TString, TObject, TArray]"

definition infer_field :: "pydict list \<Rightarrow> string \<Rightarrow> field_schema" where
  \<comment> \<open>Modelled from the spec: the FieldSchema of one field of a batch\<close>
  "infer_field records f =
     (let seen = observed records f;
          present = filter (\<lambda>v. v \<noteq> PNone) seen;
          classes = map classify present
      in if present = []
         then \<lparr>inferred_type = TNull, matching = 0, non_null = 0,
               nullable = list_ex (\<lambda>v. v = PNone) seen, sample_values = []\<rparr>
         else \<lparr>inferred_type = majority classes,
               matching = count_list classes (majority classes), non_null = length present,
               nullable = list_ex (\<lambda>v. v = PNone) seen, sample_values = present\<rparr>)"

definition build_schema :: "pydict list \<Rightarrow> (string \<times> field_schema) list" where
  \<comment> \<open>Modelled from the spec: the candidate schema of a batch, sorted by field name\<close>
  "build_schema records =
     sort_key fst (map (\<lambda>f. (f, infer_field records f)) (remdups (concat (map (map fst) records))))"

definition schema_hash :: "(string \<times> field_schema) list \<Rightarrow> content_hash" where
  \<comment> \<open>Modelled from the spec: the content hash of a schema, taken to be free of collisions: the
      sorted triples of field, type and bucketed confidence that it is computed from\<close>
  "schema_hash sch =
     sort_key fst (map (\<lambda>ffs. (fst ffs, inferred_type (snd ffs), confidence_bucket (snd ffs))) sch)"

definition field_changes :: "(string \<times> field_schema) list \<Rightarrow> string \<times> field_schema \<Rightarrow> change list" where
  "field_changes prior ffs =
     (case map_of prior (fst ffs) of
        None \<Rightarrow> [\<lparr>change_kind = field_added, change_field = fst ffs, old_value = NoValue,
                   new_value = TypeValue (inferred_type (snd ffs))\<rparr>]
      | Some old \<Rightarrow>
          (if inferred_type old \<noteq> inferred_type (snd ffs)
           then [\<lparr>change_kind = type_changed, change_field = fst ffs,
                   old_value = TypeValue (inferred_type old),
                   new_value = TypeValue (inferred_type (snd ffs))\<rparr>] else [])
          @ (if confidence_bucket old \<noteq> confidence_bucket (snd ffs)
             then [\<lparr>change_kind = confidence_changed, change_field = fst ffs,
                     old_value = BucketValue (confidence_bucket old),
                     new_value = BucketValue (confidence_bucket (snd ffs))\<rparr>] else []))"

definition diff_schemas ::
  "(string \<times> field_schema) list \<Rightarrow> (string \<times> field_schema) list \<Rightarrow> change list" where
  \<comment> \<open>Modelled from the spec: the field-by-field diff of a candidate against the prior schema:
      additions, type changes and bucket-level confidence changes, then removals\<close>
  "diff_schemas prior candidate =
     concat (map (field_changes prior) candidate)
     @ concat (map (\<lambda>ffs. if map_of candidate (fst ffs) = None
                     then [\<lparr>change_kind = field_removed, change_field = fst ffs,
                             old_value = TypeValue (inferred_type (snd ffs)), new_value = NoValue\<rparr>]
                     else []) prior)"

definition current_version :: "schema_store \<Rightarrow> string \<Rightarrow> schema_version option" where
  \<comment> \<open>Modelled from the spec: the version the current-version pointer of a source names\<close>
  "current_version st sid =
     (case map_of (current st) sid of
        None \<Rightarrow> None
      | Some i \<Rightarrow> find (\<lambda>v. version v = i) (history st))"

definition new_version ::
  "string \<Rightarrow> schema_store \<Rightarrow> string \<Rightarrow> (string \<times> field_schema) list
   \<Rightarrow> (string \<times> field_schema) list \<Rightarrow> schema_store \<times> schema_version \<times> change list" where
  \<comment> \<open>Modelled from the spec: allocate the next global version id, append to the history, move
      the current pointer of the source\<close>
  "new_version clock st sid candidate prior =
     (let chg = diff_schemas prior candidate;
          v = \<lparr>version = next_id st, timestamp = clock, hash = schema_hash candidate,
               schema = candidate, changes = chg, source_id = sid\<rparr>
      in (st\<lparr>history := history st @ [v],
             hash_index := hash_index st @ [(schema_hash candidate, next_id st)],
             current := (sid, next_id st) # filter (\<lambda>p. fst p \<noteq> sid) (current st),
             next_id := Suc (next_id st)\<rparr>, v, chg))"

definition infer_schema ::
  "string \<Rightarrow> schema_store \<Rightarrow> pydict list \<Rightarrow> string
   \<Rightarrow> schema_error + (schema_store \<times> schema_version \<times> change list)" where
  \<comment> \<open>Modelled from the spec: \<open>infer_schema(records, source_id)\<close> at a clock reading, on an
      explicit store: the new store, the active version and the list of changes.  An empty
      batch is refused; a candidate whose hash is the one of the source's current version
      changes nothing; any other candidate becomes a new version, diffed against the current
      one, or against the empty schema for a source without a version\<close>
  "infer_schema clock st records sid =
     (if records = [] then Inl InvalidSourceBatch
      else case current_version st sid of
          None \<Rightarrow> Inr (new_version clock st sid (build_schema records) [])
        | Some cur \<Rightarrow>
            if hash cur = schema_hash (build_schema records) then Inr (st, cur, [])
            else Inr (new_version clock st sid (build_schema records) (schema cur)))"

section \<open>Environments for the examples\<close>

definition no_libraries :: "string \<Rightarrow> env" where
  \<comment> \<open>an interpreter without pandas, BeautifulSoup and PyYAML, at the clock reading \<open>t\<close>\<close>
  "no_libraries t =
     \<lparr>has_pandas = False, has_bs4 = False, has_yaml = False,
      read_csv = (\<lambda>csv. Inl (OtherException ''pandas is not installed'')),
      bs4_parse = (\<lambda>html. Inl (OtherException ''bs4 is not installed'')),
      yaml_safe_load = (\<lambda>text. Inl (OtherException ''yaml is not installed'')),
      now = t\<rparr>"


section \<open>Notions used in the statements\<close>







section \<open>Properties\<close>

subsection \<open>The character tables\<close>

lemma is_digit_table: "filter is_digit Enum.enum = digits"
  by code_simp

lemma is_space_table: "filter is_space Enum.enum = whitespace"
  by code_simp

lemma is_word_table: "filter is_word Enum.enum = digits @ A_Z @ ''_'' @ a_z @ latin1_word"
  by code_simp

lemma lower_char_table:
  "filter (\<lambda>c. lower_char c \<noteq> c) Enum.enum = A_Z @ latin1_upper"
  "map lower_char (A_Z @ latin1_upper) = a_z @ latin1_lower"
  by code_simp+

lemma upper_ascii_table:
  "filter (\<lambda>c. upper_ascii c \<noteq> c) Enum.enum = a_z"
  "map upper_ascii a_z = A_Z"
  by code_simp+

subsection \<open>Dictionaries\<close>

lemma map_of_dict_set: "map_of (dict_set k v d) k' = (if k' = k then Some v else map_of d k')"
  by (induction d) auto

lemma dict_get_dict_set: "dict_get (dict_set k v d) k' = (if k' = k then Some v else dict_get d k')"
  by (simp add: dict_get_def map_of_dict_set)

lemma dict_get_foldl_set:
  "distinct (map fst m) \<Longrightarrow>
   dict_get (foldl (\<lambda>d kv. dict_set (fst kv) (snd kv) d) d m) k =
     (case map_of m k of Some v \<Rightarrow> Some v | None \<Rightarrow> dict_get d k)"
proof (induction m arbitrary: d)
  case Nil
  then show ?case by simp
next
  case (Cons a m)
  then have "map_of m (fst a) = None"
    by (simp add: map_of_eq_None_iff)
  with Cons show ?case
    by (auto simp: dict_get_dict_set split: option.splits)
qed

lemma dict_get_dict_update:
  "distinct (map fst m) \<Longrightarrow>
   dict_get (dict_update d m) k = (case map_of m k of Some v \<Rightarrow> Some v | None \<Rightarrow> dict_get d k)"
  by (simp add: dict_update_def dict_get_foldl_set)

lemma keys_dict_set: "set (map fst (dict_set k v d)) = insert k (set (map fst d))"
proof (induction d)
  case Nil
  show ?case by simp
next
  case (Cons a d)
  obtain k' v' where a: "a = (k', v')" by (cases a)
  show ?case
  proof (cases "k' = k")
    case True
    then show ?thesis using a by simp
  next
    case False
    then show ?thesis using a Cons by (simp add: insert_commute)
  qed
qed

lemma distinct_dict_set: "distinct (map fst d) \<Longrightarrow> distinct (map fst (dict_set k v d))"
proof (induction d)
  case Nil
  then show ?case by simp
next
  case (Cons a d)
  obtain k' v' where a: "a = (k', v')" by (cases a)
  show ?case
  proof (cases "k' = k")
    case True
    with Cons.prems a show ?thesis by simp
  next
    case False
    have "k' \<notin> set (map fst (dict_set k v d))"
      unfolding keys_dict_set using False Cons.prems a by simp
    with Cons a False show ?thesis by simp
  qed
qed

subsection \<open>The global metadata\<close>

lemma global_metadata_distinct: "distinct (map fst (extract_global_metadata ev content filename))"
  by (auto simp: extract_global_metadata_def Let_def intro!: distinct_dict_set split: option.splits)

lemma dict_get_stamped:
  "dict_get (dict_update r (extract_global_metadata ev content filename)) k =
     (case dict_get (extract_global_metadata ev content filename) k of
        Some v \<Rightarrow> Some v | None \<Rightarrow> dict_get r k)"
  using dict_get_dict_update[OF global_metadata_distinct, of r ev content filename k]
  by (simp add: dict_get_def)

lemma global_metadata_fixed:
  "dict_get (extract_global_metadata ev content filename) ''source_file'' = Some (PStr filename)"
  "dict_get (extract_global_metadata ev content filename) ''processed_at'' = Some (PStr (now ev))"
  "dict_get (extract_global_metadata ev content filename) ''file_size_chars'' =
     Some (PInt (int (length content)))"
  "dict_get (extract_global_metadata ev content filename) ''total_lines'' =
     Some (PInt (int (length (split_on CHR ''\<newline>'' content))))"
  by (auto simp: extract_global_metadata_def Let_def dict_get_dict_set dict_get_def
           split: option.splits)

lemma global_metadata_scraped:
  "search1 no_flags scraped_pattern content = Some g \<Longrightarrow>
   dict_get (extract_global_metadata ev content filename) ''scraped_at'' = Some (PStr (strip g))"
  by (auto simp: extract_global_metadata_def Let_def dict_get_dict_set dict_get_def
           split: option.splits)

lemma global_metadata_source:
  "search1 no_flags source_pattern content = Some g \<Longrightarrow>
   dict_get (extract_global_metadata ev content filename) ''source_url'' = Some (PStr (strip g))"
  by (auto simp: extract_global_metadata_def Let_def dict_get_dict_set dict_get_def
           split: option.splits)

text \<open>
  Claim C10.  Every record that \<open>parse_file\<close> returns carries the global metadata: the keys
  \<open>source_file\<close>, \<open>processed_at\<close>, \<open>file_size_chars\<close> and \<open>total_lines\<close>, and \<open>scraped_at\<close> and
  \<open>source_url\<close> when their patterns match the document.  The value under each of these keys is
  the one of the global metadata, whatever the section parser had stored under that name.
\<close>

theorem parse_file_global_metadata:
  assumes "r \<in> set (parse_file ev content filename)"
  shows "dict_get r ''source_file'' = Some (PStr filename)
    \<and> dict_get r ''processed_at'' = Some (PStr (now ev))
    \<and> dict_get r ''file_size_chars'' = Some (PInt (int (length content)))
    \<and> dict_get r ''total_lines'' = Some (PInt (int (length (split_on CHR ''\<newline>'' content))))
    \<and> (\<forall>g. search1 no_flags scraped_pattern content = Some g
           \<longrightarrow> dict_get r ''scraped_at'' = Some (PStr (strip g)))
    \<and> (\<forall>g. search1 no_flags source_pattern content = Some g
           \<longrightarrow> dict_get r ''source_url'' = Some (PStr (strip g)))"
proof -
  from assms obtain r0 where r: "r = dict_update r0 (extract_global_metadata ev content filename)"
    by (auto simp: parse_file_def Let_def split: if_splits)
  show ?thesis
    unfolding r dict_get_stamped
    by (simp add: global_metadata_fixed global_metadata_scraped global_metadata_source)
qed

text \<open>
  A metadata section whose own lines name \<open>source_file\<close> and \<open>scraped_at\<close>: the record keeps
  its position for \<open>source_file\<close> and takes the file name as its value.
\<close>

theorem parse_file_global_metadata_witness:
  "parse_file (no_libraries ''T'') ''--- METADATA\<newline>source_file: x\<newline>scraped_at: 5'' ''f.txt'' =
     [[(''data_type'', PStr ''metadata''), (''source_file'', PStr ''f.txt''),
       (''scraped_at'', PStr ''5''), (''processed_at'', PStr ''T''),
       (''file_size_chars'', PInt 41), (''total_lines'', PInt 3)]]
   \<and> parse_metadata ''--- METADATA\<newline>source_file: x\<newline>scraped_at: 5'' =
     [[(''data_type'', PStr ''metadata''), (''source_file'', PStr ''x''), (''scraped_at'', PStr ''5'')]]
   \<and> search1 no_flags scraped_pattern ''--- METADATA\<newline>source_file: x\<newline>scraped_at: 5'' = Some ''5''
   \<and> dict_get [(''data_type'', PStr ''metadata''), (''source_file'', PStr ''f.txt''),
       (''scraped_at'', PStr ''5''), (''processed_at'', PStr ''T''),
       (''file_size_chars'', PInt 41), (''total_lines'', PInt 3)] ''source_file'' = Some (PStr ''f.txt'')"
proof -
  let ?c = "''--- METADATA\<newline>source_file: x\<newline>scraped_at: 5''"
  let ?r = "[(''data_type'', PStr ''metadata''), (''source_file'', PStr ''f.txt''),
       (''scraped_at'', PStr ''5''), (''processed_at'', PStr ''T''),
       (''file_size_chars'', PInt 41), (''total_lines'', PInt 3)]"
  have pf: "parse_file (no_libraries ''T'') ?c ''f.txt'' = [?r]"
    by code_simp
  have pm: "parse_metadata ?c =
     [[(''data_type'', PStr ''metadata''), (''source_file'', PStr ''x''), (''scraped_at'', PStr ''5'')]]"
    by code_simp
  have sc: "search1 no_flags scraped_pattern ?c = Some ''5''"
    by code_simp
  have "?r \<in> set (parse_file (no_libraries ''T'') ?c ''f.txt'')"
    unfolding pf by simp
  from parse_file_global_metadata[OF this]
  have "dict_get ?r ''source_file'' = Some (PStr ''f.txt'')"
    by blast
  with pf pm sc show ?thesis
    by blast
qed

subsection \<open>The loop over the sections\<close>

lemma foldl_parse_step:
  "foldl (parse_step ev filename) acc secs =
     acc @ concat (map (\<lambda>sec. case parse_section ev (fst sec) (snd sec) of
                          Inl e \<Rightarrow> [fallback_record filename (fst sec) (snd sec) e]
                        | Inr rs \<Rightarrow> rs) secs)"
  by (induction secs arbitrary: acc) (auto simp: parse_step_def split: sum.splits)

lemma parse_file_unfold:
  "parse_file ev content filename =
     map (\<lambda>r. dict_update r (extract_global_metadata ev content filename))
       (concat (map (\<lambda>sec. case parse_section ev (fst sec) (snd sec) of
                          Inl e \<Rightarrow> [fallback_record filename (fst sec) (snd sec) e]
                        | Inr rs \<Rightarrow> rs) (extract_sections content)))"
  unfolding parse_file_def Let_def foldl_parse_step[where acc = "[]", simplified]
  by simp

lemma length_concat_sum: "length (concat xss) = sum_list (map length xss)"
  by (induction xss) auto

text \<open>
  Claim C1, as amended.  The claim as written, that \<open>parse_file\<close> returns at least as many
  records as the splitter matched sections, fails: a section whose parser returns no record
  contributes none (the metadata, key-value, repeated-fields, ambiguous-types and OCR parsers
  return the empty list when they find no field, and \<open>parse_file\<close> appends only a non-empty
  result).  What holds: the number of records is the sum, over the matched sections, of the number
  of records the section's parser returned, with 1 for a section whose parser raised; so it is at
  least the number of sections whose parser raised or returned a record.
\<close>

theorem parse_file_record_count:
  "length (parse_file ev content filename) =
     sum_list (map (\<lambda>sec. case parse_section ev (fst sec) (snd sec) of
                             Inl e \<Rightarrow> 1 | Inr rs \<Rightarrow> length rs) (extract_sections content))
   \<and> length (filter (\<lambda>sec. case parse_section ev (fst sec) (snd sec) of
                             Inl e \<Rightarrow> True | Inr rs \<Rightarrow> rs \<noteq> []) (extract_sections content))
       \<le> length (parse_file ev content filename)"
proof -
  let ?n = "\<lambda>sec. case parse_section ev (fst sec) (snd sec) of Inl e \<Rightarrow> (1::nat) | Inr rs \<Rightarrow> length rs"
  let ?p = "\<lambda>sec. case parse_section ev (fst sec) (snd sec) of Inl e \<Rightarrow> True | Inr rs \<Rightarrow> rs \<noteq> []"
  have count: "length (parse_file ev content filename) = sum_list (map ?n (extract_sections content))"
    unfolding parse_file_unfold
    by (simp add: length_concat_sum comp_def sum.case_distrib[of length] cong: sum.case_cong)
  define n where "n = ?n"
  define p where "p = ?p"
  have step: "(if p sec then 1 else 0) \<le> n sec" for sec
    unfolding n_def p_def by (cases "parse_section ev (fst sec) (snd sec)") (auto simp: Suc_le_eq)
  have "length (filter p secs) \<le> sum_list (map n secs)" for secs
  proof (induction secs)
    case Nil
    show ?case by simp
  next
    case (Cons sec secs)
    from step[of sec] Cons show ?case
      by (cases "p sec") auto
  qed
  then have "length (filter ?p (extract_sections content))
      \<le> sum_list (map ?n (extract_sections content))"
    unfolding n_def p_def .
  with count show ?thesis by simp
qed

text \<open>
  The document \<open>--- METADATA\<close> has one matched section and no record.
\<close>

theorem parse_file_record_count_counterexample:
  "\<not> length (extract_sections ''--- METADATA'')
       \<le> length (parse_file (no_libraries ''T'') ''--- METADATA'' ''f.txt'')"
  by code_simp

lemma global_metadata_other_keys:
  "k \<notin> {''source_file'', ''processed_at'', ''file_size_chars'', ''total_lines'', ''scraped_at'',
         ''source_url''} \<Longrightarrow>
   dict_get (extract_global_metadata ev content filename) k = None"
  by (auto simp: extract_global_metadata_def Let_def dict_get_dict_set dict_get_def
           split: option.splits)

text \<open>
  Claim C2.  \<open>parse_file\<close> returns a list for every input: what it returns is, section by
  section, the records of the section's parser, or exactly one fallback record when the parser
  raised, each then updated with the global metadata.  The fallback record of a section carries
  the section's tag, the first 500 characters of its text and the text of the error, and the
  update with the global metadata leaves these three in place.
\<close>

theorem parse_file_fallback:
  "parse_file ev content filename =
     map (\<lambda>r. dict_update r (extract_global_metadata ev content filename))
       (concat (map (\<lambda>sec. case parse_section ev (fst sec) (snd sec) of
                          Inl e \<Rightarrow> [fallback_record filename (fst sec) (snd sec) e]
                        | Inr rs \<Rightarrow> rs) (extract_sections content)))
   \<and> (\<forall>parsed_data section_type section_content e.
        parse_section ev section_type section_content = Inl e \<longrightarrow>
          parse_step ev filename parsed_data (section_type, section_content) =
            parsed_data @ [fallback_record filename section_type section_content e])
   \<and> (\<forall>section_type section_content e.
        dict_get (dict_update (fallback_record filename section_type section_content e)
                    (extract_global_metadata ev content filename)) ''section_type''
          = Some (PStr section_type)
      \<and> dict_get (dict_update (fallback_record filename section_type section_content e)
                    (extract_global_metadata ev content filename)) ''raw_content''
          = Some (PStr (take 500 section_content))
      \<and> dict_get (dict_update (fallback_record filename section_type section_content e)
                    (extract_global_metadata ev content filename)) ''parse_error''
          = Some (PStr (str_exn e)))"
proof (intro conjI allI impI)
  show "parse_file ev content filename =
     map (\<lambda>r. dict_update r (extract_global_metadata ev content filename))
       (concat (map (\<lambda>sec. case parse_section ev (fst sec) (snd sec) of
                          Inl e \<Rightarrow> [fallback_record filename (fst sec) (snd sec) e]
                        | Inr rs \<Rightarrow> rs) (extract_sections content)))"
    by (rule parse_file_unfold)
next
  fix parsed_data section_type section_content e
  assume "parse_section ev section_type section_content = Inl e"
  then show "parse_step ev filename parsed_data (section_type, section_content) =
            parsed_data @ [fallback_record filename section_type section_content e]"
    by (simp add: parse_step_def)
next
  fix section_type section_content e
  show "dict_get (dict_update (fallback_record filename section_type section_content e)
                    (extract_global_metadata ev content filename)) ''section_type''
          = Some (PStr section_type)"
    by (simp add: dict_get_stamped global_metadata_other_keys)
       (simp add: fallback_record_def dict_get_def)
next
  fix section_type section_content e
  show "dict_get (dict_update (fallback_record filename section_type section_content e)
                    (extract_global_metadata ev content filename)) ''raw_content''
          = Some (PStr (take 500 section_content))"
    by (simp add: dict_get_stamped global_metadata_other_keys)
       (simp add: fallback_record_def dict_get_def)
next
  fix section_type section_content e
  show "dict_get (dict_update (fallback_record filename section_type section_content e)
                    (extract_global_metadata ev content filename)) ''parse_error''
          = Some (PStr (str_exn e))"
    by (simp add: dict_get_stamped global_metadata_other_keys)
       (simp add: fallback_record_def dict_get_def)
qed


text \<open>
  Two matched sections, of which the first yields no record and the second one.
\<close>

theorem parse_file_record_count_witness:
  "length (parse_file (no_libraries ''T'') ''--- METADATA--- KEY-VALUE KVP BLOCK\<newline>a: 1'' ''f.txt'') = 1
   \<and> map fst (extract_sections ''--- METADATA--- KEY-VALUE KVP BLOCK\<newline>a: 1'') = [''metadata'', ''key_value'']
   \<and> map (\<lambda>sec. parse_section (no_libraries ''T'') (fst sec) (snd sec))
         (extract_sections ''--- METADATA--- KEY-VALUE KVP BLOCK\<newline>a: 1'')
       = [Inr [], Inr [[(''data_type'', PStr ''key_value_pairs''), (''a'', PStr ''1'')]]]"
proof -
  let ?c = "''--- METADATA--- KEY-VALUE KVP BLOCK\<newline>a: 1''"
  have secs: "extract_sections ?c =
      [(''metadata'', ''--- METADATA''), (''key_value'', ''--- KEY-VALUE KVP BLOCK\<newline>a: 1'')]"
    by code_simp
  have results: "map (\<lambda>sec. parse_section (no_libraries ''T'') (fst sec) (snd sec))
      [(''metadata'', ''--- METADATA''), (''key_value'', ''--- KEY-VALUE KVP BLOCK\<newline>a: 1'')]
       = [Inr [], Inr [[(''data_type'', PStr ''key_value_pairs''), (''a'', PStr ''1'')]]]"
    by code_simp
  from results have each:
    "parse_section (no_libraries ''T'') ''metadata'' ''--- METADATA'' = Inr []"
    "parse_section (no_libraries ''T'') ''key_value'' ''--- KEY-VALUE KVP BLOCK\<newline>a: 1''
       = Inr [[(''data_type'', PStr ''key_value_pairs''), (''a'', PStr ''1'')]]"
    by simp_all
  from parse_file_record_count[of "no_libraries ''T''" ?c "''f.txt''"]
  have "length (parse_file (no_libraries ''T'') ?c ''f.txt'') = 1"
    unfolding secs by (simp add: each)
  with secs results show ?thesis by simp
qed

text \<open>
  A JSON-LD section whose script holds a JSON array: the assignment of \<open>data_type\<close> raises a
  \<open>TypeError\<close>, which only \<open>parse_file\<close> catches.
\<close>

theorem parse_file_fallback_witness:
  "parse_section (no_libraries ''T'') ''json_ld''
       ''--- JSON-LD<script type=\"application/ld+json\">[]</script>''
     = Inl (TypeError ''list indices must be integers or slices, not str'')
   \<and> parse_step (no_libraries ''T'') ''f.txt'' []
       (''json_ld'', ''--- JSON-LD<script type=\"application/ld+json\">[]</script>'')
     = [fallback_record ''f.txt'' ''json_ld''
          ''--- JSON-LD<script type=\"application/ld+json\">[]</script>''
          (TypeError ''list indices must be integers or slices, not str'')]
   \<and> parse_file (no_libraries ''T'')
       ''--- JSON-LD<script type=\"application/ld+json\">[]</script>'' ''f.txt''
     = [[(''section_type'', PStr ''json_ld''),
         (''raw_content'', PStr ''--- JSON-LD<script type=\"application/ld+json\">[]</script>''),
         (''parse_error'', PStr ''list indices must be integers or slices, not str''),
         (''source_file'', PStr ''f.txt''), (''processed_at'', PStr ''T''),
         (''file_size_chars'', PInt 57), (''total_lines'', PInt 1)]]"
proof -
  let ?c = "''--- JSON-LD<script type=\"application/ld+json\">[]</script>''"
  have raised: "parse_section (no_libraries ''T'') ''json_ld'' ?c
      = Inl (TypeError ''list indices must be integers or slices, not str'')"
    by code_simp
  have pf: "parse_file (no_libraries ''T'') ?c ''f.txt''
     = [[(''section_type'', PStr ''json_ld''), (''raw_content'', PStr ?c),
         (''parse_error'', PStr ''list indices must be integers or slices, not str''),
         (''source_file'', PStr ''f.txt''), (''processed_at'', PStr ''T''),
         (''file_size_chars'', PInt 57), (''total_lines'', PInt 1)]]"
    by code_simp
  from parse_file_fallback[of "no_libraries ''T''" ?c "''f.txt''"] raised
  have "parse_step (no_libraries ''T'') ''f.txt'' [] (''json_ld'', ?c)
     = [] @ [fallback_record ''f.txt'' ''json_ld'' ?c
          (TypeError ''list indices must be integers or slices, not str'')]"
    by blast
  with raised pf show ?thesis by simp
qed

subsection \<open>The clock\<close>













subsection \<open>Lines of the form key: value\<close>





subsection \<open>The repair cascade on a bare-word value\<close>

text \<open>
  The minimal fix turns \<open>{name: John, age: 30,}\<close> into \<open>{"name": John, "age": 30}\<close>: the trailing
  comma is gone and the keys are quoted, but the value \<open>John\<close> is still a bare word, and the
  decoder rejects the text.
\<close>

theorem minimal_fix_counterexample:
  "fix_malformed_json ''{name: John, age: 30,}'' = ''{\"name\": John, \"age\": 30}''
   \<and> json_loads (fix_malformed_json ''{name: John, age: 30,}'')
       = Inl (JSONDecodeError ''Expecting value: line 1 column 10 (char 9)'')"
  by code_simp

text \<open>
  Claim C5, as amended.  On \<open>{name: John, age: 30,}\<close> the minimal fix does not yield valid JSON
  (it quotes keys, not values), and neither does the aggressive fix (it quotes the value and
  leaves the keys bare); the result of the cascade is the one of the manual extraction, strategy
  3, which recognises the numeric field only: the record holds \<open>age = 30\<close> and no \<open>name\<close>.
\<close>

theorem repair_cascade_example:
  "json_loads (fix_malformed_json ''{name: John, age: 30,}'')
       = Inl (JSONDecodeError ''Expecting value: line 1 column 10 (char 9)'')
   \<and> aggressive_json_fix ''{name: John, age: 30,}'' = ''{name: \"John\", age: 30}''
   \<and> json_loads (aggressive_json_fix ''{name: John, age: 30,}'')
       = Inl (JSONDecodeError
           ''Expecting property name enclosed in double quotes: line 1 column 2 (char 1)'')
   \<and> extract_json_fields_manually ''{name: John, age: 30,}'' = PDict [(''age'', PInt 30)]
   \<and> attempt_json_fixes ''{name: John, age: 30,}'' = Inr (PDict [(''age'', PInt 30)])
   \<and> parse_malformed_json ''{name: John, age: 30,}''
       = Inr [[(''age'', PInt 30), (''data_type'', PStr ''json_object''), (''was_malformed'', PBool True)]]"
  by code_simp

subsection \<open>Rows of a CSV-like section\<close>






subsection \<open>What a pattern can match\<close>



















subsection \<open>Candidates of the JSON parsers\<close>










subsection \<open>What the decoder returns for a text that starts with a brace\<close>







subsection \<open>The export endpoint\<close>

lemma str_nat_404: "str_nat 404 = ''404''"
  by code_simp

text \<open>
  Claim C9.  The handler raises a 404 \<open>HTTPException\<close> for a version id that is not in the
  history, inside its own \<open>try\<close>; the \<open>except Exception\<close> of that \<open>try\<close> catches it and raises a
  500 in its place.  So the caller of the endpoint sees the generic failure with status 500,
  whose detail quotes the 404, and never the not-found failure itself.  For a version id in the
  history the handler returns what the engine's \<open>export_schema\<close> returns.
\<close>

theorem export_schema_absent:
  "(version_id \<notin> set (map fst schema_versions) \<longrightarrow>
      export_schema schema_versions engine_export_schema version_id =
        Inl (HTTPException 500
              (''Failed to export schema: 404: Schema version '' @ version_id @ '' not found'')))
   \<and> (\<forall>schema_export. version_id \<in> set (map fst schema_versions)
          \<and> engine_export_schema version_id = Inr schema_export \<longrightarrow>
      export_schema schema_versions engine_export_schema version_id = Inr schema_export)"
  by (simp add: export_schema_def str_nat_404 del: str_nat.simps)

text \<open>
  The version id \<open>nonexistent\<close> on an engine without versions.
\<close>

theorem export_schema_absent_witness:
  "export_schema ([] :: (string \<times> unit) list) (\<lambda>v. Inr ''exported'') ''nonexistent''
     = Inl (HTTPException 500
         ''Failed to export schema: 404: Schema version nonexistent not found'')
   \<and> export_schema [(''1'', ())] (\<lambda>v. Inr ''exported'') ''1'' = Inr ''exported''"
proof -
  have "''nonexistent'' \<notin> set (map fst ([] :: (string \<times> unit) list))"
    by simp
  with export_schema_absent[of "''nonexistent''" "[] :: (string \<times> unit) list" "\<lambda>v. Inr ''exported''"]
  have "export_schema ([] :: (string \<times> unit) list) (\<lambda>v. Inr ''exported'') ''nonexistent''
     = Inl (HTTPException 500
         (''Failed to export schema: 404: Schema version '' @ ''nonexistent'' @ '' not found''))"
    by blast
  moreover have "export_schema [(''1'', ())] (\<lambda>v. Inr ''exported'') ''1'' = Inr ''exported''"
    by code_simp
  ultimately show ?thesis by simp
qed

subsection \<open>The version store\<close>






text \<open>
  The specification's example of drift, on the same model: after \<open>[{"a": 1}]\<close>, the batch
  \<open>[{"a": 1, "b": "x"}]\<close> makes version 2 with the single change that \<open>b\<close> was added.
\<close>

lemma infer_schema_field_added:
  "(case infer_schema ''t1'' empty_store [[(''a'', PInt 1)]] ''src'' of
      Inl e \<Rightarrow> None
    | Inr (st1, v1, ch1) \<Rightarrow>
        (case infer_schema ''t2'' st1 [[(''a'', PInt 1), (''b'', PStr ''x'')]] ''src'' of
           Inl e \<Rightarrow> None
         | Inr (st2, v2, ch2) \<Rightarrow> Some (version v2, ch2)))
   = Some (2, [\<lparr>change_kind = field_added, change_field = ''b'', old_value = NoValue,
                 new_value = TypeValue TString\<rparr>])"
  by code_simp

end
